theory Spec2Isabelle
  imports Main
begin

section \<open>Python values\<close>

text \<open>
  A Python \<open>str\<close> is a sequence of Unicode code points, and \<open>len\<close>, slicing and
  \<open>in\<close> count code points. It is modelled as a list of code points, so that the Chinese
  message texts of the source are the exact literals of the code. \<open>ascii\<close> turns an
  ASCII literal into such a string. The content of a file on disk is a list of bytes.
\<close>

type_synonym pystr = "nat list"
type_synonym bytes = "nat list"

definition ascii :: "string \<Rightarrow> pystr" where
  "ascii s = map of_char s"

text \<open>The lower case of an ASCII code point: \<open>A\<close> to \<open>Z\<close> become \<open>a\<close> to \<open>z\<close>.\<close>

definition lower_cp :: "nat \<Rightarrow> nat" where
  "lower_cp c = (if 65 \<le> c \<and> c \<le> 90 then c + 32 else c)"

text \<open>\<open>sep.join(parts)\<close>.\<close>

fun join :: "pystr \<Rightarrow> pystr list \<Rightarrow> pystr" where
  "join sep [] = []"
| "join sep [x] = x"
| "join sep (x # y # ys) = x @ sep @ join sep (y # ys)"

text \<open>\<open>sub in s\<close> for two strings: \<open>sub\<close> occurs in \<open>s\<close> as a contiguous run.\<close>

fun startswith :: "pystr \<Rightarrow> pystr \<Rightarrow> bool" where
  "startswith s [] = True"
| "startswith [] (p # ps) = False"
| "startswith (c # s) (p # ps) = (c = p \<and> startswith s ps)"

fun str_contains :: "pystr \<Rightarrow> pystr \<Rightarrow> bool" where
  "str_contains [] sub = (sub = [])"
| "str_contains (c # s) sub = (startswith (c # s) sub \<or> str_contains s sub)"

text \<open>
  The exceptions of the source: the class, and the text that \<open>str(e)\<close> gives. Only
  subclasses of \<open>Exception\<close> are modelled, which is what \<open>except Exception\<close> catches.
\<close>

datatype exn_class =
    Exception | UnicodeDecodeError | OSError | JSONDecodeError
  | KeyError | TypeError | AttributeError | ValidationError | ValueError

datatype exn = Exn (cls: exn_class) (str: pystr)

section \<open>Paths\<close>

text \<open>
  \<open>Path(p).suffix\<close> for a POSIX path: the path is split at \<open>/\<close>, empty and \<open>.\<close>
  components are dropped, the name is the last component, and the suffix is the name
  from its last dot on, when that dot is neither the first nor the last character.
\<close>

definition slash :: nat where "slash = 47"
definition dot :: nat where "dot = 46"

fun split_on :: "nat \<Rightarrow> pystr \<Rightarrow> pystr list" where
  "split_on d [] = [[]]"
| "split_on d (c # s) =
     (if c = d then [] # split_on d s
      else (case split_on d s of [] \<Rightarrow> [[c]] | w # ws \<Rightarrow> (c # w) # ws))"

definition Path_name :: "pystr \<Rightarrow> pystr" where
  "Path_name p =
     (case filter (\<lambda>c. c \<noteq> [] \<and> c \<noteq> [dot]) (split_on slash p) of
        [] \<Rightarrow> []
      | c # cs \<Rightarrow> last (c # cs))"

definition name_suffix :: "pystr \<Rightarrow> pystr" where
  "name_suffix name =
     (if dot \<notin> set name then []
      else let tl_len = length (takeWhile (\<lambda>c. c \<noteq> dot) (rev name));
               i = length name - tl_len - 1
           in if 0 < i \<and> i < length name - 1 then drop i name else [])"

definition Path_suffix :: "pystr \<Rightarrow> pystr" where
  "Path_suffix p = name_suffix (Path_name p)"

text \<open>\<open>os.path.basename(p)\<close>: what follows the last \<open>/\<close>.\<close>

definition basename :: "pystr \<Rightarrow> pystr" where
  "basename p = rev (takeWhile (\<lambda>c. c \<noteq> slash) (rev p))"

section \<open>The world outside the program\<close>

text \<open>
  The file system holds regular files. The language-model backend is observed through
  the list of requests it has received, oldest first.
\<close>

datatype message = SystemMessage pystr | HumanMessage pystr

record world =
  files :: "pystr \<Rightarrow> bytes option"
  llm_requests :: "message list list"

datatype encoding = UTF8 | GBK

text \<open>A Python float: a finite double \<open>m * 2 ^ e\<close>, an infinity or a NaN.\<close>

datatype pyfloat = Finite int int | PosInf | NegInf | NaN

text \<open>
  What \<open>json.loads\<close> returns. A \<open>dict\<close> is the list of its items in insertion order;
  its keys are distinct, and a key is looked up with \<open>map_of\<close>.
\<close>

datatype json =
    JNull | JBool bool | JInt int | JFloat pyfloat | JStr pystr
  | JList "json list" | JDict "(pystr \<times> json) list"

text \<open>
  The libraries and services the program calls, none of which is part of the repository.
  Each is a parameter of the model:
  \<^item> \<open>open_read enc fs p\<close>: \<open>open(p, "r", encoding=enc).read()\<close>;
  \<^item> the three document loaders of langchain give the \<open>page_content\<close> of the documents
    they load;
  \<^item> \<open>llm_invoke earlier msgs\<close>: the \<open>content\<close> of the response of \<open>ChatOllama.invoke\<close> to
    \<open>msgs\<close>, after the requests \<open>earlier\<close>;
  \<^item> \<open>ChatOllama_init\<close>: the exception the constructor of the client raises, if any;
  \<^item> \<open>temperature\<close>: what \<open>float\<close> makes of the configured temperature;
  \<^item> \<open>json_loads\<close>: \<open>json.loads\<close>;
  \<^item> \<open>int_field\<close>, \<open>str_field\<close>: how pydantic validates a value for a field declared
    \<open>int\<close> or \<open>str\<close>, and \<open>validation_text\<close>, the text of its \<open>ValidationError\<close>;
  \<^item> \<open>builtin_text c v\<close>: the text of the exception of class \<open>c\<close> that the interpreter
    raises for an operation that does not apply to \<open>v\<close> (for \<open>KeyError\<close>, \<open>v\<close> is the key);
  \<^item> \<open>unicode_lower s\<close>: \<open>s.lower()\<close> for a string that is not ASCII, which follows the
    Unicode tables of the interpreter;
  \<^item> \<open>format_2f n\<close>: the text \<open>f"{n / 1024:.2f}"\<close>, and \<open>st_mtime\<close>, the modification
    time \<open>os.stat\<close> reports;
  \<^item> \<open>tmp_dir\<close> and \<open>tmp_rand\<close>: the directory and the random part of the name that
    \<open>tempfile\<close> chooses; \<open>tmp_create_error\<close>, \<open>tmp_write_error\<close> and
    \<open>tmp_close_error\<close>: the exception that creating, writing or closing the temporary
    file raises, if any; \<open>unlink_fails\<close>: whether \<open>os.unlink\<close> raises its \<open>OSError\<close>.
\<close>

record libs =
  open_read :: "encoding \<Rightarrow> (pystr \<Rightarrow> bytes option) \<Rightarrow> pystr \<Rightarrow> exn + pystr"
  UnstructuredMarkdownLoader :: "(pystr \<Rightarrow> bytes option) \<Rightarrow> pystr \<Rightarrow> exn + pystr list"
  PyPDFLoader :: "(pystr \<Rightarrow> bytes option) \<Rightarrow> pystr \<Rightarrow> exn + pystr list"
  UnstructuredWordDocumentLoader :: "(pystr \<Rightarrow> bytes option) \<Rightarrow> pystr \<Rightarrow> exn + pystr list"
  llm_invoke :: "message list list \<Rightarrow> message list \<Rightarrow> exn + pystr"
  ChatOllama_init :: "exn option"
  temperature :: "exn + pyfloat"
  json_loads :: "pystr \<Rightarrow> exn + json"
  int_field :: "json \<Rightarrow> int option"
  str_field :: "json \<Rightarrow> pystr option"
  validation_text :: "json \<Rightarrow> json \<Rightarrow> json \<Rightarrow> pystr"
  builtin_text :: "exn_class \<Rightarrow> json \<Rightarrow> pystr"
  unicode_lower :: "pystr \<Rightarrow> pystr"
  format_2f :: "nat \<Rightarrow> pystr"
  st_mtime :: "(pystr \<Rightarrow> bytes option) \<Rightarrow> pystr \<Rightarrow> pyfloat"
  tmp_dir :: pystr
  tmp_rand :: "(pystr \<Rightarrow> bytes option) \<Rightarrow> pystr"
  tmp_create_error :: "(pystr \<Rightarrow> bytes option) \<Rightarrow> exn option"
  tmp_write_error :: "bytes \<Rightarrow> exn option"
  tmp_close_error :: "bytes \<Rightarrow> exn option"
  unlink_fails :: "(pystr \<Rightarrow> bytes option) \<Rightarrow> pystr \<Rightarrow> bool"

definition os_path_exists :: "world \<Rightarrow> pystr \<Rightarrow> bool" where
  "os_path_exists w p = (files w p \<noteq> None)"

text \<open>
  \<open>str.lower()\<close>. In an ASCII string the letters \<open>A\<close> to \<open>Z\<close> become \<open>a\<close> to \<open>z\<close>
  and nothing else changes; any other string is lower-cased by the library.
\<close>

definition lower :: "libs \<Rightarrow> pystr \<Rightarrow> pystr" where
  "lower L s = (if list_all (\<lambda>c. c < 128) s then map lower_cp s else unicode_lower L s)"

section \<open>FileProcessor\<close>

text \<open>
  \<open>supported_extensions\<close> is the dictionary of \<open>__init__\<close>, from extension to loader,
  in the order it is written.
\<close>

datatype loader = load_text_file | load_markdown_file | load_pdf_file | load_word_file

definition supported_extensions :: "(pystr \<times> loader) list" where
  "supported_extensions =
     [(ascii ''.txt'', load_text_file),
      (ascii ''.md'', load_markdown_file),
      (ascii ''.pdf'', load_pdf_file),
      (ascii ''.docx'', load_word_file),
      (ascii ''.doc'', load_word_file)]"

definition newline :: pystr where "newline = [10]"

text \<open>UTF-8 first; on \<open>UnicodeDecodeError\<close> GBK, whose failure is not caught.\<close>

definition FileProcessor_load_text_file :: "libs \<Rightarrow> world \<Rightarrow> pystr \<Rightarrow> exn + pystr" where
  "FileProcessor_load_text_file L w file_path =
     (case open_read L UTF8 (files w) file_path of
        Inr text \<Rightarrow> Inr text
      | Inl e \<Rightarrow>
          if cls e = UnicodeDecodeError then open_read L GBK (files w) file_path
          else Inl e)"

definition FileProcessor_load_markdown_file :: "libs \<Rightarrow> world \<Rightarrow> pystr \<Rightarrow> exn + pystr" where
  "FileProcessor_load_markdown_file L w file_path =
     (case UnstructuredMarkdownLoader L (files w) file_path of
        Inr documents \<Rightarrow> Inr (join newline documents)
      | Inl e \<Rightarrow> FileProcessor_load_text_file L w file_path)"

definition cannot_load_pdf :: pystr where
  "cannot_load_pdf = [26080, 27861, 21152, 36733, 32, 80, 68, 70, 32, 25991, 20214, 58, 32]"

definition cannot_load_word :: pystr where
  "cannot_load_word =
     [26080, 27861, 21152, 36733, 32, 87, 111, 114, 100, 32, 25991, 20214, 58, 32]"

definition FileProcessor_load_pdf_file :: "libs \<Rightarrow> world \<Rightarrow> pystr \<Rightarrow> exn + pystr" where
  "FileProcessor_load_pdf_file L w file_path =
     (case PyPDFLoader L (files w) file_path of
        Inr documents \<Rightarrow> Inr (join newline documents)
      | Inl e \<Rightarrow> Inl (Exn Exception (cannot_load_pdf @ str e)))"

definition FileProcessor_load_word_file :: "libs \<Rightarrow> world \<Rightarrow> pystr \<Rightarrow> exn + pystr" where
  "FileProcessor_load_word_file L w file_path =
     (case UnstructuredWordDocumentLoader L (files w) file_path of
        Inr documents \<Rightarrow> Inr (join newline documents)
      | Inl e \<Rightarrow> Inl (Exn Exception (cannot_load_word @ str e)))"

fun call_loader :: "loader \<Rightarrow> libs \<Rightarrow> world \<Rightarrow> pystr \<Rightarrow> exn + pystr" where
  "call_loader load_text_file = FileProcessor_load_text_file"
| "call_loader load_markdown_file = FileProcessor_load_markdown_file"
| "call_loader load_pdf_file = FileProcessor_load_pdf_file"
| "call_loader load_word_file = FileProcessor_load_word_file"

definition is_supported_file :: "libs \<Rightarrow> pystr \<Rightarrow> bool" where
  "is_supported_file L file_path =
     (let file_extension = lower L (Path_suffix file_path)
      in file_extension \<in> set (map fst supported_extensions))"

definition file_does_not_exist :: pystr where
  "file_does_not_exist = [25991, 20214, 19981, 23384, 22312, 58, 32]"

definition unsupported_file_type :: pystr where
  "unsupported_file_type = [19981, 25903, 25345, 30340, 25991, 20214, 31867, 22411, 58, 32]"

definition error_loading_file :: pystr where
  "error_loading_file = [21152, 36733, 25991, 20214, 26102, 20986, 38169, 58, 32]"

definition FileProcessor_load_file :: "libs \<Rightarrow> world \<Rightarrow> pystr \<Rightarrow> exn + pystr" where
  "FileProcessor_load_file L w file_path =
     (if \<not> os_path_exists w file_path
      then Inl (Exn Exception (file_does_not_exist @ file_path))
      else let file_extension = lower L (Path_suffix file_path) in
        case map_of supported_extensions file_extension of
          None \<Rightarrow> Inl (Exn Exception (unsupported_file_type @ file_extension))
        | Some loader_func \<Rightarrow>
            (case call_loader loader_func L w file_path of
               Inr text \<Rightarrow> Inr text
             | Inl e \<Rightarrow> Inl (Exn Exception (error_loading_file @ str e))))"

text \<open>
  \<open>split_text\<close> hands the text to langchain's \<open>RecursiveCharacterTextSplitter\<close>, built
  in \<open>__init__\<close> with \<open>chunk_size=1000\<close>, \<open>chunk_overlap=200\<close> and \<open>length_function=len\<close>.
  The splitter is a parameter: it is not code of the repository.
\<close>

definition split_text ::
  "(nat \<Rightarrow> nat \<Rightarrow> (pystr \<Rightarrow> nat) \<Rightarrow> pystr \<Rightarrow> pystr list) \<Rightarrow> pystr \<Rightarrow> pystr list" where
  "split_text RecursiveCharacterTextSplitter text =
     RecursiveCharacterTextSplitter 1000 200 length text"

text \<open>The dictionary \<open>get_file_info\<close> returns, one field for each of its five keys.\<close>

record file_info =
  info_name :: pystr
  info_size :: pystr
  info_type :: pystr
  info_supported :: bool
  info_mtime :: pyfloat

definition get_file_info :: "libs \<Rightarrow> world \<Rightarrow> pystr \<Rightarrow> exn + file_info" where
  "get_file_info L w file_path =
     (case files w file_path of
        None \<Rightarrow> Inl (Exn Exception (file_does_not_exist @ file_path))
      | Some data \<Rightarrow>
          Inr \<lparr> info_name = basename file_path,
                info_size = format_2f L (length data) @ ascii '' KB'',
                info_type = Path_suffix file_path,
                info_supported = is_supported_file L file_path,
                info_mtime = st_mtime L (files w) file_path \<rparr>)"

section \<open>OllamaFileChat\<close>

text \<open>
  The object holds the document that is loaded, if any. Its \<open>FileProcessor\<close> has no
  state of its own, and its client is the backend of \<open>libs\<close>. What the methods print is
  not modelled.
\<close>

record OllamaFileChat =
  current_file_content :: "pystr option"
  current_file_path :: "pystr option"

definition OllamaFileChat_init :: "libs \<Rightarrow> exn + OllamaFileChat" where
  "OllamaFileChat_init L =
     (case ChatOllama_init L of
        Some e \<Rightarrow> Inl e
      | None \<Rightarrow> Inr \<lparr> current_file_content = None, current_file_path = None \<rparr>)"

text \<open>
  \<open>load_file\<close> returns whether it succeeded, and the object as it is afterwards. The
  two fields are assigned before the file information is read.
\<close>

definition OllamaFileChat_load_file ::
  "libs \<Rightarrow> world \<Rightarrow> OllamaFileChat \<Rightarrow> pystr \<Rightarrow> bool \<times> OllamaFileChat" where
  "OllamaFileChat_load_file L w self file_path =
     (case FileProcessor_load_file L w file_path of
        Inl e \<Rightarrow> (False, self)
      | Inr text \<Rightarrow>
          let self' = self \<lparr> current_file_content := Some text,
                              current_file_path := Some file_path \<rparr>
          in (case get_file_info L w file_path of
                Inl e \<Rightarrow> (False, self')
              | Inr info \<Rightarrow> (True, self')))"

text \<open>The reply of the methods when no file is loaded: "please load a file first".\<close>

definition please_load_a_file :: pystr where
  "please_load_a_file = [35831, 20808, 21152, 36733, 19968, 20010, 25991, 20214, 12290]"

text \<open>The three parts of the system prompt of \<open>ask_about_file\<close>, around the path and the text.\<close>

definition analyst_prompt_head :: pystr where
  "analyst_prompt_head =
     [20320, 26159, 19968, 20010, 25991, 26723, 20998, 26512, 19987, 23478, 12290, 29992,
      25143, 24050, 32463, 19978, 20256, 20102, 19968, 20010, 25991, 20214, 65292, 20869,
      23481, 22914, 19979, 65306, 10, 10, 25991, 20214, 36335, 24452, 58, 32]"

definition analyst_prompt_middle :: pystr where
  "analyst_prompt_middle = [10, 10, 25991, 20214, 20869, 23481, 58, 10]"

definition analyst_prompt_tail :: pystr where
  "analyst_prompt_tail =
     [46, 46, 46, 10, 10, 35831, 22522, 20110, 36825, 20010, 25991, 20214, 30340, 20869,
      23481, 22238, 31572, 29992, 25143, 30340, 38382, 39064, 12290, 22914, 26524, 25991,
      20214, 20869, 23481, 24456, 38271, 65292, 20320, 30475, 21040, 30340, 21487, 33021,
      26159, 25130, 26029, 30340, 29256, 26412, 12290]"

definition analysis_failed :: pystr where
  "analysis_failed = [20998, 26512, 25991, 20214, 26102, 20986, 38169, 58, 32]"

text \<open>How an f-string shows an optional string: \<open>None\<close> as the text \<open>None\<close>.\<close>

definition format_optional :: "pystr option \<Rightarrow> pystr" where
  "format_optional x = (case x of None \<Rightarrow> ascii ''None'' | Some s \<Rightarrow> s)"

text \<open>
  Every call of the backend is appended to the requests of the world. A method returns
  its result and the world afterwards.
\<close>

definition invoke :: "libs \<Rightarrow> world \<Rightarrow> message list \<Rightarrow> (exn + pystr) \<times> world" where
  "invoke L w messages =
     (llm_invoke L (llm_requests w) messages,
      w \<lparr> llm_requests := llm_requests w @ [messages] \<rparr>)"

definition ask_about_file ::
  "libs \<Rightarrow> world \<Rightarrow> OllamaFileChat \<Rightarrow> pystr \<Rightarrow> pystr \<times> world" where
  "ask_about_file L w self question =
     (case current_file_content self of
        None \<Rightarrow> (please_load_a_file, w)
      | Some text \<Rightarrow>
          if text = [] then (please_load_a_file, w)
          else
            let system_prompt =
                  analyst_prompt_head @ format_optional (current_file_path self)
                  @ analyst_prompt_middle @ take 3000 text @ analyst_prompt_tail;
                messages = [SystemMessage system_prompt, HumanMessage question]
            in (case invoke L w messages of
                  (Inr response, w') \<Rightarrow> (response, w')
                | (Inl e, w') \<Rightarrow> (analysis_failed @ str e, w')))"

definition summary_question :: pystr where
  "summary_question =
     [35831, 20026, 36825, 20010, 25991, 20214, 25552, 20379, 19968, 20010, 35814, 32454,
      30340, 25688, 35201, 65292, 21253, 25324, 20027, 35201, 20869, 23481, 12289, 20851,
      38190, 28857, 21644, 32467, 35770, 12290]"

definition structure_question :: pystr where
  "structure_question =
     [35831, 20998, 26512, 36825, 20010, 25991, 20214, 30340, 32467, 26500, 21644, 32452,
      32455, 26041, 24335, 65292, 21253, 25324, 31456, 33410, 12289, 27573, 33853, 24067,
      23616, 31561, 12290]"

definition key_points_question :: pystr where
  "key_points_question =
     [35831, 20174, 36825, 20010, 25991, 20214, 20013, 25552, 21462, 26368, 37325, 35201,
      30340, 20851, 38190, 28857, 65292, 20197, 21015, 34920, 24418, 24335, 21576, 29616,
      12290]"

definition summarize_file :: "libs \<Rightarrow> world \<Rightarrow> OllamaFileChat \<Rightarrow> pystr \<times> world" where
  "summarize_file L w self =
     (case current_file_content self of
        None \<Rightarrow> (please_load_a_file, w)
      | Some text \<Rightarrow>
          if text = [] then (please_load_a_file, w)
          else ask_about_file L w self summary_question)"

definition analyze_file_structure :: "libs \<Rightarrow> world \<Rightarrow> OllamaFileChat \<Rightarrow> pystr \<times> world" where
  "analyze_file_structure L w self =
     (case current_file_content self of
        None \<Rightarrow> (please_load_a_file, w)
      | Some text \<Rightarrow>
          if text = [] then (please_load_a_file, w)
          else ask_about_file L w self structure_question)"

definition extract_key_points :: "libs \<Rightarrow> world \<Rightarrow> OllamaFileChat \<Rightarrow> pystr \<times> world" where
  "extract_key_points L w self =
     (case current_file_content self of
        None \<Rightarrow> (please_load_a_file, w)
      | Some text \<Rightarrow>
          if text = [] then (please_load_a_file, w)
          else ask_about_file L w self key_points_question)"

text \<open>The text \<open>{"sections": []}\<close>.\<close>

definition empty_sections_json :: pystr where
  "empty_sections_json = [123, 34, 115, 101, 99, 116, 105, 111, 110, 115, 34, 58, 32, 91, 93, 125]"

text \<open>
  The text \<open>{"error": "\<close> followed by the Chinese for "error while extracting the
  structure of the document: ", and the closing \<open>"}\<close>.
\<close>

definition error_json_head :: pystr where
  "error_json_head =
     [123, 34, 101, 114, 114, 111, 114, 34, 58, 32, 34, 25991, 26723, 32467, 26500, 25552,
      21462, 26102, 20986, 38169, 58, 32]"

definition error_json_tail :: pystr where
  "error_json_tail = [34, 125]"

text \<open>The system prompt of \<open>extract_document_sections\<close>, 1038 code points.\<close>

definition sections_prompt :: pystr where
  "sections_prompt =
     [35, 32, 35282, 33394, 10, 20320, 26159, 19968, 20010, 39030, 32423, 30340, 32, 65, 73,
      32, 25991, 26723, 32467, 26500, 21270, 24341, 25806, 12290, 10, 10, 35, 32, 20219,
      21153, 10, 20320, 30340, 26680, 24515, 20219, 21153, 26159, 20998, 26512, 29992, 25143,
      25552, 20379, 30340, 25991, 26723, 65292, 23558, 20854, 20998, 35299, 20026, 20197,
      19968, 32423, 26631, 39064, 20026, 21333, 20301, 30340, 22810, 20010, 37096, 20998,
      65292, 24182, 20197, 25351, 23450, 30340, 32, 74, 83, 79, 78, 32, 26684, 24335, 36755,
      20986, 12290, 10, 10, 35, 32, 24037, 20316, 27969, 31243, 58, 10, 49, 46, 32, 35299,
      26512, 25991, 26723, 26684, 24335, 21644, 32467, 26500, 29305, 24449, 10, 50, 46, 32,
      35782, 21035, 24182, 23450, 20301, 25152, 26377, 19968, 32423, 26631, 39064, 10, 51, 46,
      32, 25552, 21462, 27599, 20010, 26631, 39064, 19979, 30340, 25991, 26412, 20869, 23481,
      22359, 10, 52, 46, 32, 36807, 28388, 31227, 38500, 34920, 26684, 21644, 22270, 29255,
      30456, 20851, 37096, 20998, 10, 53, 46, 32, 29983, 25104, 32467, 26500, 21270, 74, 83,
      79, 78, 36755, 20986, 10, 10, 35, 32, 36755, 20986, 26684, 24335, 10, 20320, 24517,
      39035, 36820, 22238, 19968, 20010, 42, 42, 21333, 19968, 30340, 32, 74, 83, 79, 78, 32,
      23545, 35937, 42, 42, 12290, 36825, 20010, 23545, 35937, 21253, 21547, 19968, 20010,
      21517, 20026, 32, 96, 115, 101, 99, 116, 105, 111, 110, 115, 96, 32, 30340, 38190,
      65292, 20854, 20540, 26159, 19968, 20010, 25968, 32452, 12290, 25968, 32452, 20013,
      30340, 27599, 20010, 23545, 35937, 20195, 34920, 19968, 20010, 31456, 33410, 65292,
      24182, 21253, 21547, 20197, 19979, 19977, 20010, 23383, 27573, 65306, 10, 45, 32, 96,
      105, 110, 100, 101, 120, 96, 58, 32, 40, 73, 110, 116, 101, 103, 101, 114, 41, 32,
      31456, 33410, 30340, 24207, 21495, 65292, 20174, 32, 49, 32, 24320, 22987, 65292, 20381,
      27425, 36882, 22686, 12290, 10, 45, 32, 96, 116, 105, 116, 108, 101, 96, 58, 32, 40, 83,
      116, 114, 105, 110, 103, 41, 32, 35782, 21035, 20986, 30340, 19968, 32423, 26631, 39064,
      30340, 32431, 25991, 26412, 12290, 10, 45, 32, 96, 99, 111, 110, 116, 101, 110, 116, 96,
      58, 32, 40, 83, 116, 114, 105, 110, 103, 41, 32, 35813, 19968, 32423, 26631, 39064,
      19979, 26041, 12289, 30452, 21040, 19979, 19968, 20010, 19968, 32423, 26631, 39064,
      20986, 29616, 20043, 21069, 30340, 25152, 26377, 20869, 23481, 12290, 36825, 24212,
      21253, 25324, 27573, 33853, 12289, 21015, 34920, 12289, 24341, 35328, 20197, 21450,
      25152, 26377, 20108, 32423, 12289, 19977, 32423, 31561, 23376, 26631, 39064, 12290, 10,
      10, 26368, 32456, 36755, 20986, 30340, 32, 74, 83, 79, 78, 32, 32467, 26500, 31034,
      20363, 58, 10, 96, 123, 32, 34, 115, 101, 99, 116, 105, 111, 110, 115, 34, 58, 32, 91,
      32, 123, 32, 34, 105, 110, 100, 101, 120, 34, 58, 32, 49, 44, 32, 34, 116, 105, 116,
      108, 101, 34, 58, 32, 34, 46, 46, 46, 34, 44, 32, 34, 99, 111, 110, 116, 101, 110, 116,
      34, 58, 32, 34, 46, 46, 46, 34, 32, 125, 44, 32, 123, 32, 34, 105, 110, 100, 101, 120,
      34, 58, 32, 50, 44, 32, 34, 116, 105, 116, 108, 101, 34, 58, 32, 34, 46, 46, 46, 34, 44,
      32, 34, 99, 111, 110, 116, 101, 110, 116, 34, 58, 32, 34, 46, 46, 46, 34, 32, 125, 32,
      93, 32, 125, 96, 10, 10, 35, 32, 35268, 21017, 19982, 32422, 26463, 10, 49, 46, 32, 42,
      42, 20869, 23481, 24402, 23646, 42, 42, 58, 32, 96, 99, 111, 110, 116, 101, 110, 116,
      96, 32, 23383, 27573, 24517, 39035, 21253, 21547, 20174, 24403, 21069, 19968, 32423,
      26631, 39064, 24320, 22987, 65288, 19981, 21253, 25324, 26631, 39064, 26412, 36523,
      65289, 65292, 21040, 19979, 19968, 20010, 19968, 32423, 26631, 39064, 20043, 21069,
      30340, 25152, 26377, 25991, 26412, 12290, 20294, 26159, 20869, 23481, 20013, 26377,
      35265, 38468, 34920, 65292, 21315, 19975, 19981, 35201, 25226, 38468, 34920, 21152,
      19978, 25918, 21040, 20869, 23481, 20013, 12290, 10, 50, 46, 32, 42, 42, 26631, 39064,
      28165, 27927, 42, 42, 58, 32, 96, 116, 105, 116, 108, 101, 96, 32, 23383, 27573, 24212,
      20026, 32431, 25991, 26412, 65292, 21435, 38500, 20219, 20309, 32, 77, 97, 114, 107,
      100, 111, 119, 110, 32, 26631, 35760, 65288, 22914, 32, 96, 35, 32, 96, 65289, 12290,
      10, 51, 46, 32, 42, 42, 36215, 22987, 20869, 23481, 22788, 29702, 42, 42, 58, 32, 25991,
      26723, 24320, 22836, 12289, 22312, 31532, 19968, 20010, 19968, 32423, 26631, 39064,
      20986, 29616, 20043, 21069, 30340, 20219, 20309, 20869, 23481, 37117, 24212, 34987,
      24573, 30053, 65292, 19981, 21253, 21547, 22312, 20219, 20309, 31456, 33410, 30340, 32,
      96, 99, 111, 110, 116, 101, 110, 116, 96, 32, 20013, 12290, 10, 52, 46, 32, 42, 42,
      31354, 20869, 23481, 22788, 29702, 42, 42, 58, 32, 22914, 26524, 19968, 20010, 19968,
      32423, 26631, 39064, 19979, 27809, 26377, 20219, 20309, 20869, 23481, 65288, 32039,
      25509, 30528, 23601, 26159, 19979, 19968, 20010, 19968, 32423, 26631, 39064, 65289,
      65292, 96, 99, 111, 110, 116, 101, 110, 116, 96, 32, 23383, 27573, 24212, 20026, 31354,
      23383, 31526, 20018, 32, 96, 34, 34, 96, 12290, 10, 53, 46, 32, 42, 42, 26080, 26631,
      39064, 25991, 26723, 42, 42, 58, 32, 22914, 26524, 25972, 20010, 25991, 26723, 20013,
      25214, 19981, 21040, 20219, 20309, 21487, 35782, 21035, 30340, 19968, 32423, 26631,
      39064, 65292, 20320, 24517, 39035, 36820, 22238, 19968, 20010, 21253, 21547, 31354, 32,
      96, 115, 101, 99, 116, 105, 111, 110, 115, 96, 32, 25968, 32452, 30340, 32, 74, 83, 79,
      78, 32, 23545, 35937, 58, 32, 96, 123, 32, 34, 115, 101, 99, 116, 105, 111, 110, 115,
      34, 58, 32, 91, 93, 32, 125, 96, 12290, 10, 54, 46, 32, 42, 42, 32431, 20928, 36755,
      20986, 42, 42, 58, 32, 20320, 30340, 22238, 22797, 24517, 39035, 26159, 32431, 31929,
      30340, 32, 74, 83, 79, 78, 32, 26684, 24335, 65292, 19981, 21253, 21547, 20219, 20309,
      35299, 37322, 12289, 27880, 37322, 25110, 32, 77, 97, 114, 107, 100, 111, 119, 110, 32,
      30340, 32, 96, 96, 96, 106, 115, 111, 110, 32, 46, 46, 46, 32, 96, 96, 96, 32, 20195,
      30721, 22359, 26631, 35760, 12290, 10, 55, 46, 32, 23436, 20840, 25490, 38500, 34920,
      26684, 21644, 22270, 29255, 20869, 23481, 12290, 10, 10, 29616, 22312, 65292, 35831,
      22788, 29702, 20197, 19979, 25991, 26723, 65306]"

definition OllamaFileChat_extract_document_sections ::
  "libs \<Rightarrow> world \<Rightarrow> OllamaFileChat \<Rightarrow> pystr \<times> world" where
  "OllamaFileChat_extract_document_sections L w self =
     (case current_file_content self of
        None \<Rightarrow> (empty_sections_json, w)
      | Some text \<Rightarrow>
          if text = [] then (empty_sections_json, w)
          else
            let messages = [SystemMessage sections_prompt, HumanMessage text]
            in (case invoke L w messages of
                  (Inr response, w') \<Rightarrow> (response, w')
                | (Inl e, w') \<Rightarrow> (error_json_head @ str e @ error_json_tail, w')))"

definition get_supported_formats :: "pystr list" where
  "get_supported_formats = map fst supported_extensions"

section \<open>The API\<close>

record DocumentSection =
  index :: int
  title :: pystr
  content :: pystr

record DocumentSectionsResponse =
  sections :: "DocumentSection list"
  file_name :: "pystr option"
  file_size :: "pystr option"
  processing_status :: pystr

text \<open>
  What a handler raises: an \<open>HTTPException\<close> with its status code and detail, or any
  other exception.
\<close>

datatype raised = HTTPException (status_code: nat) (detail: json) | Other exn

text \<open>The uploaded file: its name, and what \<open>await file.read()\<close> gives.\<close>

record UploadFile =
  filename :: "pystr option"
  read :: "exn + bytes"

definition model_init_failed :: pystr where
  "model_init_failed = [21021, 22987, 21270, 65, 73, 27169, 22411, 22833, 36133, 58, 32]"

text \<open>
  \<open>initialize_file_chat\<close> builds the global \<open>file_chat\<close> when it is \<open>None\<close>. The
  temperature is converted before the \<open>try\<close>, so its failure is not turned into an
  \<open>HTTPException\<close>.
\<close>

definition initialize_file_chat :: "libs \<Rightarrow> OllamaFileChat option \<Rightarrow> raised + OllamaFileChat" where
  "initialize_file_chat L file_chat =
     (case file_chat of
        Some chat \<Rightarrow> Inr chat
      | None \<Rightarrow>
          (case temperature L of
             Inl e \<Rightarrow> Inl (Other e)
           | Inr t \<Rightarrow>
               (case OllamaFileChat_init L of
                  Inl e \<Rightarrow> Inl (HTTPException 500 (JStr (model_init_failed @ str e)))
                | Inr chat \<Rightarrow> Inr chat)))"

subsection \<open>Operations of Python on the parsed value\<close>

text \<open>
  The handler applies \<open>in\<close>, \<open>[]\<close>, \<open>.get\<close> and \<open>for\<close> to whatever \<open>json.loads\<close>
  returned. Each is defined on every value: where Python raises, the model returns the
  exception.
\<close>

definition contains :: "libs \<Rightarrow> json \<Rightarrow> pystr \<Rightarrow> exn + bool" where
  "contains L v key =
     (case v of
        JDict items \<Rightarrow> Inr (key \<in> set (map fst items))
      | JList xs \<Rightarrow> Inr (JStr key \<in> set xs)
      | JStr s \<Rightarrow> Inr (str_contains s key)
      | _ \<Rightarrow> Inl (Exn TypeError (builtin_text L TypeError v)))"

definition subscript :: "libs \<Rightarrow> json \<Rightarrow> pystr \<Rightarrow> exn + json" where
  "subscript L v key =
     (case v of
        JDict items \<Rightarrow>
          (case map_of items key of
             None \<Rightarrow> Inl (Exn KeyError (builtin_text L KeyError (JStr key)))
           | Some x \<Rightarrow> Inr x)
      | _ \<Rightarrow> Inl (Exn TypeError (builtin_text L TypeError v)))"

definition dict_get ::
  "libs \<Rightarrow> json \<Rightarrow> pystr \<Rightarrow> json \<Rightarrow> exn + json" where
  "dict_get L v key dflt =
     (case v of
        JDict items \<Rightarrow> Inr (case map_of items key of None \<Rightarrow> dflt | Some x \<Rightarrow> x)
      | _ \<Rightarrow> Inl (Exn AttributeError (builtin_text L AttributeError v)))"

text \<open>A \<open>for\<close> loop runs over the elements of a list, the keys of a dict, the characters of a string.\<close>

definition iterate :: "libs \<Rightarrow> json \<Rightarrow> exn + json list" where
  "iterate L v =
     (case v of
        JList xs \<Rightarrow> Inr xs
      | JDict items \<Rightarrow> Inr (map (\<lambda>kv. JStr (fst kv)) items)
      | JStr s \<Rightarrow> Inr (map (\<lambda>c. JStr [c]) s)
      | _ \<Rightarrow> Inl (Exn TypeError (builtin_text L TypeError v)))"

subsection \<open>Building the response\<close>

text \<open>
  \<open>DocumentSection(index=i, title=t, content=c)\<close>: pydantic validates the three
  values against the declared types and raises \<open>ValidationError\<close> when one of them fails.
\<close>

definition new_DocumentSection :: "libs \<Rightarrow> json \<Rightarrow> json \<Rightarrow> json \<Rightarrow> exn + DocumentSection" where
  "new_DocumentSection L i t c =
     (case (int_field L i, str_field L t, str_field L c) of
        (Some i', Some t', Some c') \<Rightarrow> Inr \<lparr> index = i', title = t', content = c' \<rparr>
      | _ \<Rightarrow> Inl (Exn ValidationError (validation_text L i t c)))"

definition section_of ::
  "libs \<Rightarrow> json \<Rightarrow> exn + DocumentSection" where
  "section_of L section_data =
     (case subscript L section_data (ascii ''index'') of
        Inl e \<Rightarrow> Inl e
      | Inr i \<Rightarrow>
     (case subscript L section_data (ascii ''title'') of
        Inl e \<Rightarrow> Inl e
      | Inr t \<Rightarrow>
     (case subscript L section_data (ascii ''content'') of
        Inl e \<Rightarrow> Inl e
      | Inr c \<Rightarrow> new_DocumentSection L i t c)))"

text \<open>The loop that appends one \<open>DocumentSection\<close> for each element, in order.\<close>

fun append_sections ::
  "libs \<Rightarrow> DocumentSection list \<Rightarrow> json list
     \<Rightarrow> exn + DocumentSection list" where
  "append_sections L acc [] = Inr acc"
| "append_sections L acc (section_data # rest) =
     (case section_of L section_data of
        Inl e \<Rightarrow> Inl e
      | Inr s \<Rightarrow> append_sections L (acc @ [s]) rest)"

definition bad_response_format :: pystr where
  "bad_response_format = [65, 73, 21709, 24212, 26684, 24335, 38169, 35823, 58, 32]"

definition raw_response_was :: pystr where
  "raw_response_was = [12290, 21407, 22987, 21709, 24212, 58, 32]"

text \<open>
  \<open>HTTPException(status_code=500, detail=d)\<close>, where \<open>d\<close> is a value of the model
  output: the constructor replaces a detail that is \<open>None\<close> by the phrase of the
  status, \<open>Internal Server Error\<close>. Every other detail is kept as it is.
\<close>

definition detail_of_500 :: "json \<Rightarrow> json" where
  "detail_of_500 d = (if d = JNull then JStr (ascii ''Internal Server Error'') else d)"

text \<open>
  The inner \<open>try\<close> of the handler, from \<open>json.loads\<close> to the response. Only
  \<open>JSONDecodeError\<close> is caught here; the check for the key \<open>error\<close> comes before the
  sections are read.
\<close>

definition parse_sections ::
  "libs \<Rightarrow> pystr \<Rightarrow> pystr option \<Rightarrow> file_info
     \<Rightarrow> raised + DocumentSectionsResponse" where
  "parse_sections L sections_json name info =
     (case json_loads L sections_json of
        Inl e \<Rightarrow>
          if cls e = JSONDecodeError
          then Inl (HTTPException 500
                 (JStr (bad_response_format @ str e @ raw_response_was
                        @ take 200 sections_json @ ascii ''...'')))
          else Inl (Other e)
      | Inr sections_data \<Rightarrow>
     (case contains L sections_data (ascii ''error'') of
        Inl e \<Rightarrow> Inl (Other e)
      | Inr True \<Rightarrow>
          (case subscript L sections_data (ascii ''error'') of
             Inl e \<Rightarrow> Inl (Other e)
           | Inr d \<Rightarrow> Inl (HTTPException 500 (detail_of_500 d)))
      | Inr False \<Rightarrow>
     (case dict_get L sections_data (ascii ''sections'') (JList []) of
        Inl e \<Rightarrow> Inl (Other e)
      | Inr v \<Rightarrow>
     (case iterate L v of
        Inl e \<Rightarrow> Inl (Other e)
      | Inr elements \<Rightarrow>
     (case append_sections L [] elements of
        Inl e \<Rightarrow> Inl (Other e)
      | Inr secs \<Rightarrow>
          Inr \<lparr> sections = secs,
                file_name = name,
                file_size = Some (info_size info),
                processing_status = ascii ''success'' \<rparr>)))))"

subsection \<open>The handler of extract-sections\<close>

definition unsupported_format :: pystr where
  "unsupported_format = [19981, 25903, 25345, 30340, 25991, 20214, 26684, 24335, 58, 32]"

definition supported_formats_are :: pystr where
  "supported_formats_are = [12290, 25903, 25345, 30340, 26684, 24335, 58, 32]"

definition cannot_load_content :: pystr where
  "cannot_load_content = [26080, 27861, 21152, 36733, 25991, 20214, 20869, 23481]"

definition processing_failed :: pystr where
  "processing_failed = [22788, 29702, 25991, 20214, 26102, 21457, 29983, 38169, 35823, 58, 32]"

text \<open>
  \<open>NamedTemporaryFile(suffix=s, delete=False)\<close> creates an empty file whose name is
  the directory, \<open>tmp\<close>, a random part and the suffix. It creates the file exclusively
  and never takes a name that exists: \<open>tmp_rand\<close> is the random part it settles on, and
  when a file of that name exists the call fails, as it does when it has run out of
  names, with the \<open>FileExistsError\<close> whose text is \<open>no_usable_name\<close>.
\<close>

definition no_usable_name :: pystr where
  "no_usable_name = ascii ''[Errno 17] No usable temporary file name found''"

definition temp_name :: "libs \<Rightarrow> world \<Rightarrow> pystr \<Rightarrow> pystr" where
  "temp_name L w suffix = tmp_dir L @ ascii ''/tmp'' @ tmp_rand L (files w) @ suffix"

definition write_file :: "world \<Rightarrow> pystr \<Rightarrow> bytes \<Rightarrow> world" where
  "write_file w p data = w \<lparr> files := (files w)(p \<mapsto> data) \<rparr>"

definition remove_file :: "world \<Rightarrow> pystr \<Rightarrow> world" where
  "remove_file w p = w \<lparr> files := (files w)(p := None) \<rparr>"

text \<open>
  The body of the outer \<open>try\<close>. It returns what the body returns or raises, the value
  of \<open>temp_file_path\<close> at that moment, the world and the chat object. \<open>temp_file_path\<close>
  is assigned after the content is written, inside the \<open>with\<close> block; the file is closed
  when the block is left.
\<close>

definition process_upload ::
  "libs \<Rightarrow> world \<Rightarrow> OllamaFileChat \<Rightarrow> UploadFile \<Rightarrow> pystr
     \<Rightarrow> (raised + DocumentSectionsResponse) \<times> pystr option \<times> world \<times> OllamaFileChat" where
  "process_upload L w chat file file_extension =
     (case read file of
        Inl e \<Rightarrow> (Inl (Other e), None, w, chat)
      | Inr data \<Rightarrow>
     (case tmp_create_error L (files w) of
        Some e \<Rightarrow> (Inl (Other e), None, w, chat)
      | None \<Rightarrow>
          let temp_file = temp_name L w file_extension in
          if os_path_exists w temp_file
          then (Inl (Other (Exn OSError no_usable_name)), None, w, chat)
          else let w1 = write_file w temp_file [] in
     (case tmp_write_error L data of
        Some e \<Rightarrow> (Inl (Other e), None, w1, chat)
      | None \<Rightarrow>
     (case tmp_close_error L data of
        Some e \<Rightarrow> (Inl (Other e), Some temp_file, w1, chat)
      | None \<Rightarrow>
          let w2 = write_file w temp_file data in
     (case OllamaFileChat_load_file L w2 chat temp_file of
        (False, chat') \<Rightarrow>
          (Inl (HTTPException 422 (JStr cannot_load_content)), Some temp_file, w2, chat')
      | (True, chat') \<Rightarrow>
     (case get_file_info L w2 temp_file of
        Inl e \<Rightarrow> (Inl (Other e), Some temp_file, w2, chat')
      | Inr info \<Rightarrow>
     (case OllamaFileChat_extract_document_sections L w2 chat' of
        (sections_json, w3) \<Rightarrow>
          (parse_sections L sections_json (filename file) info,
           Some temp_file, w3, chat'))))))))"

text \<open>
  The two \<open>except\<close> clauses of the outer \<open>try\<close>: an \<open>HTTPException\<close> is raised again,
  any other exception becomes an \<open>HTTPException\<close> with status 500.
\<close>

definition reraise :: "raised + DocumentSectionsResponse \<Rightarrow> raised + DocumentSectionsResponse" where
  "reraise r =
     (case r of
        Inl (Other e) \<Rightarrow> Inl (HTTPException 500 (JStr (processing_failed @ str e)))
      | _ \<Rightarrow> r)"

text \<open>
  The \<open>finally\<close> clause: when \<open>temp_file_path\<close> is set and the file exists, it is
  unlinked, and an \<open>OSError\<close> of \<open>os.unlink\<close> is passed over.
\<close>

definition cleanup :: "libs \<Rightarrow> world \<Rightarrow> pystr option \<Rightarrow> world" where
  "cleanup L w temp_file_path =
     (case temp_file_path of
        None \<Rightarrow> w
      | Some p \<Rightarrow>
          if p \<noteq> [] \<and> os_path_exists w p
          then (if unlink_fails L (files w) p then w else remove_file w p)
          else w)"

text \<open>
  The handler: the result, the world afterwards, and the global \<open>file_chat\<close> afterwards.
\<close>

definition api_extract_document_sections ::
  "libs \<Rightarrow> world \<Rightarrow> OllamaFileChat option \<Rightarrow> UploadFile
     \<Rightarrow> (raised + DocumentSectionsResponse) \<times> world \<times> OllamaFileChat option" where
  "api_extract_document_sections L w file_chat file =
     (case initialize_file_chat L file_chat of
        Inl r \<Rightarrow> (Inl r, w, file_chat)
      | Inr chat \<Rightarrow>
          let file_extension =
                lower L (Path_suffix (case filename file of None \<Rightarrow> [] | Some n \<Rightarrow> n));
              supported_formats = get_supported_formats
          in
            if file_extension \<notin> set supported_formats
            then (Inl (HTTPException 400
                    (JStr (unsupported_format @ file_extension @ supported_formats_are
                           @ join (ascii '', '') supported_formats))),
                  w, Some chat)
            else
              (case process_upload L w chat file file_extension of
                 (r, temp_file_path, w', chat') \<Rightarrow>
                   (reraise r, cleanup L w' temp_file_path, Some chat')))"

section \<open>Words of the specification\<close>

text \<open>
  A well-typed element of the \<open>sections\<close> array, in the words of the specification: an
  object with an integer \<open>index\<close>, a string \<open>title\<close> and a string \<open>content\<close>. The
  function gives the section such an element stands for.
\<close>

definition spec_section :: "json \<Rightarrow> DocumentSection option" where
  "spec_section v =
     (case v of
        JDict kvs \<Rightarrow>
          (case (map_of kvs (ascii ''index''), map_of kvs (ascii ''title''),
                 map_of kvs (ascii ''content'')) of
             (Some (JInt i), Some (JStr t), Some (JStr c)) \<Rightarrow>
               Some \<lparr> index = i, title = t, content = c \<rparr>
           | _ \<Rightarrow> None)
      | _ \<Rightarrow> None)"

fun spec_sections :: "json list \<Rightarrow> DocumentSection list option" where
  "spec_sections [] = Some []"
| "spec_sections (x # xs) =
     (case spec_section x of
        None \<Rightarrow> None
      | Some s \<Rightarrow> (case spec_sections xs of None \<Rightarrow> None | Some ss \<Rightarrow> Some (s # ss)))"

text \<open>
  An extension \<open>a\<close> that differs from the extension \<open>e\<close> by letter case only: at every
  position the two have the same character, or \<open>e\<close> has a lower-case letter and \<open>a\<close>
  the upper-case letter for it.
\<close>

definition case_variant :: "pystr \<Rightarrow> pystr \<Rightarrow> bool" where
  "case_variant a e =
     list_all2 (\<lambda>x y. x = y \<or> (97 \<le> y \<and> y \<le> 122 \<and> x + 32 = y)) a e"

text \<open>
  An element of the array whose three values pydantic accepts, and the section \<open>s\<close> they
  are accepted as.
\<close>

definition accepted_as :: "libs \<Rightarrow> json \<Rightarrow> DocumentSection \<Rightarrow> bool" where
  "accepted_as L x s =
     (case x of
        JDict kvs \<Rightarrow>
          (case (map_of kvs (ascii ''index''), map_of kvs (ascii ''title''),
                 map_of kvs (ascii ''content'')) of
             (Some i, Some t, Some c) \<Rightarrow>
               int_field L i = Some (index s) \<and> str_field L t = Some (title s)
               \<and> str_field L c = Some (content s)
           | _ \<Rightarrow> False)
      | _ \<Rightarrow> False)"

section \<open>Libraries for the examples\<close>

text \<open>
  A pydantic that accepts an \<open>int\<close> for an \<open>int\<close> field and a \<open>str\<close> for a \<open>str\<close>
  field and nothing else, and a set of libraries in which nothing fails: text files are
  read as they are, the backend answers \<open>reply\<close> and \<open>json.loads\<close> returns \<open>parsed\<close>.

  \<open>lax_int\<close> is a validation of the \<open>int\<close> field that also converts, as the default
  mode of pydantic does, a boolean, a float without a fractional part and a string of
  decimal digits. It is one more instance of the parameter, for the examples; it does not
  list every conversion of the library.
\<close>

fun decimal :: "nat \<Rightarrow> pystr \<Rightarrow> nat option" where
  "decimal acc [] = Some acc"
| "decimal acc (c # cs) =
     (if 48 \<le> c \<and> c \<le> 57 then decimal (10 * acc + (c - 48)) cs else None)"

definition lax_int :: "json \<Rightarrow> int option" where
  "lax_int v =
     (case v of
        JInt i \<Rightarrow> Some i
      | JBool b \<Rightarrow> Some (if b then 1 else 0)
      | JFloat x \<Rightarrow>
          (case x of
             Finite m e \<Rightarrow>
               if 0 \<le> e then Some (m * 2 ^ nat e)
               else if m mod 2 ^ nat (- e) = 0 then Some (m div 2 ^ nat (- e))
               else None
           | _ \<Rightarrow> None)
      | JStr s \<Rightarrow> (if s = [] then None else map_option int (decimal 0 s))
      | _ \<Rightarrow> None)"

definition strict_int :: "json \<Rightarrow> int option" where
  "strict_int v = (case v of JInt i \<Rightarrow> Some i | _ \<Rightarrow> None)"

definition strict_str :: "json \<Rightarrow> pystr option" where
  "strict_str v = (case v of JStr s \<Rightarrow> Some s | _ \<Rightarrow> None)"

definition stub_libs :: "(exn + pystr) \<Rightarrow> (exn + json) \<Rightarrow> libs" where
  "stub_libs reply parsed =
     \<lparr> open_read = (\<lambda>enc fs p. case fs p of None \<Rightarrow> Inl (Exn OSError []) | Some data \<Rightarrow> Inr data),
       UnstructuredMarkdownLoader = (\<lambda>fs p. Inl (Exn Exception [])),
       PyPDFLoader = (\<lambda>fs p. Inl (Exn Exception [])),
       UnstructuredWordDocumentLoader = (\<lambda>fs p. Inl (Exn Exception [])),
       llm_invoke = (\<lambda>earlier messages. reply),
       ChatOllama_init = None,
       temperature = Inr (Finite 7 0),
       json_loads = (\<lambda>s. parsed),
       int_field = strict_int,
       str_field = strict_str,
       validation_text = (\<lambda>i t c. []),
       builtin_text = (\<lambda>c v. []),
       unicode_lower = (\<lambda>s. s),
       format_2f = (\<lambda>n. ascii ''0.00''),
       st_mtime = (\<lambda>fs p. Finite 0 0),
       tmp_dir = ascii ''/tmp'',
       tmp_rand = (\<lambda>fs. ascii ''abcdefgh''),
       tmp_create_error = (\<lambda>fs. None),
       tmp_write_error = (\<lambda>data. None),
       tmp_close_error = (\<lambda>data. None),
       unlink_fails = (\<lambda>fs p. False) \<rparr>"

definition empty_world :: world where
  "empty_world = \<lparr> files = (\<lambda>p. None), llm_requests = [] \<rparr>"

definition no_document :: OllamaFileChat where
  "no_document = \<lparr> current_file_content = None, current_file_path = None \<rparr>"

definition some_info :: file_info where
  "some_info =
     \<lparr> info_name = ascii ''a.md'', info_size = ascii ''0.02 KB'', info_type = ascii ''.md'',
       info_supported = True, info_mtime = Finite 0 0 \<rparr>"

text \<open>The model output of the round trip of the specification, and the value it parses to.\<close>

definition abc_text :: pystr where
  "abc_text =
     [123, 34, 115, 101, 99, 116, 105, 111, 110, 115, 34, 58, 91, 123, 34, 105, 110, 100, 101,
      120, 34, 58, 49, 44, 34, 116, 105, 116, 108, 101, 34, 58, 34, 65, 34, 44, 34, 99, 111,
      110, 116, 101, 110, 116, 34, 58, 34, 120, 34, 125, 44, 123, 34, 105, 110, 100, 101, 120,
      34, 58, 50, 44, 34, 116, 105, 116, 108, 101, 34, 58, 34, 66, 34, 44, 34, 99, 111, 110,
      116, 101, 110, 116, 34, 58, 34, 34, 125, 44, 123, 34, 105, 110, 100, 101, 120, 34, 58,
      51, 44, 34, 116, 105, 116, 108, 101, 34, 58, 34, 67, 34, 44, 34, 99, 111, 110, 116, 101,
      110, 116, 34, 58, 34, 121, 34, 125, 93, 125]"

definition abc_json :: json where
  "abc_json =
     JDict [(ascii ''sections'', JList
       [JDict [(ascii ''index'', JInt 1), (ascii ''title'', JStr (ascii ''A'')),
               (ascii ''content'', JStr (ascii ''x''))],
        JDict [(ascii ''index'', JInt 2), (ascii ''title'', JStr (ascii ''B'')),
               (ascii ''content'', JStr [])],
        JDict [(ascii ''index'', JInt 3), (ascii ''title'', JStr (ascii ''C'')),
               (ascii ''content'', JStr (ascii ''y''))]])]"

definition loaded_document :: OllamaFileChat where
  "loaded_document =
     \<lparr> current_file_content = Some (ascii ''# A''), current_file_path = Some (ascii ''a.md'') \<rparr>"

text \<open>An upload named \<open>Notes.TXT\<close>, and the name of the temporary file made for it.\<close>

definition upload_notes :: UploadFile where
  "upload_notes = \<lparr> filename = Some (ascii ''Notes.TXT''), read = Inr (ascii ''# A'') \<rparr>"

definition notes_temp :: pystr where
  "notes_temp = ascii ''/tmp/tmpabcdefgh.txt''"

text \<open>
  The output \<open>{"sections":[{"index":"1","title":"A","content":"x"}]}\<close>, whose index is
  a string, as \<open>json.loads\<close> returns it.
\<close>

definition string_index_json :: json where
  "string_index_json =
     JDict [(ascii ''sections'', JList
       [JDict [(ascii ''index'', JStr (ascii ''1'')), (ascii ''title'', JStr (ascii ''A'')),
               (ascii ''content'', JStr (ascii ''x''))]])]"

text \<open>A world whose only file is \<open>Notes.TXT\<close>.\<close>

definition notes_world :: world where
  "notes_world =
     \<lparr> files = (\<lambda>p. if p = ascii ''Notes.TXT'' then Some (ascii ''# A'') else None),
       llm_requests = [] \<rparr>"

text \<open>A world whose only file is \<open>data.CSV\<close>.\<close>

definition csv_world :: world where
  "csv_world =
     \<lparr> files = (\<lambda>p. if p = ascii ''data.CSV'' then Some [] else None), llm_requests = [] \<rparr>"

section \<open>Properties of the validator\<close>

lemma contains_dict: "contains L (JDict items) k = Inr (map_of items k \<noteq> None)"
  by (simp add: contains_def map_of_eq_None_iff)

lemma subscript_dict_Some: "map_of items k = Some v \<Longrightarrow> subscript L (JDict items) k = Inr v"
  by (simp add: subscript_def)

lemma parse_sections_error_key:
  assumes "json_loads L raw = Inr (JDict items)"
    and "map_of items (ascii ''error'') = Some d"
  shows "parse_sections L raw name info = Inl (HTTPException 500 (detail_of_500 d))"
  using assms by (simp add: parse_sections_def contains_dict subscript_dict_Some)

lemma reraise_Other:
  "reraise (Inl (Other e)) = Inl (HTTPException 500 (JStr (processing_failed @ str e)))"
  by (simp add: reraise_def)

lemma reraise_HTTPException: "reraise (Inl (HTTPException c d)) = Inl (HTTPException c d)"
  by (simp add: reraise_def)

lemma append_sections_Inr_all:
  "append_sections L acc xs = Inr secs \<Longrightarrow> x \<in> set xs \<Longrightarrow> \<exists>s. section_of L x = Inr s"
  by (induction xs arbitrary: acc) (auto split: sum.splits)

lemma section_of_rejected:
  "map_of kvs (ascii ''index'') = Some v \<Longrightarrow> int_field L v = None \<Longrightarrow>
   \<exists>e. section_of L (JDict kvs) = Inl e"
  by (simp add: section_of_def subscript_def new_DocumentSection_def
      split: option.splits sum.splits)

lemma parse_sections_no_key:
  assumes "json_loads L raw = Inr (JDict items)"
    and "map_of items (ascii ''error'') = None"
    and "map_of items (ascii ''sections'') = None"
  shows "parse_sections L raw name info =
     Inr \<lparr> sections = [], file_name = name, file_size = Some (info_size info),
           processing_status = ascii ''success'' \<rparr>"
  using assms by (simp add: parse_sections_def contains_dict dict_get_def iterate_def)

lemma parse_sections_rejected:
  assumes "json_loads L raw = Inr (JDict items)"
    and "map_of items (ascii ''sections'') = Some (JList xs)"
    and "JDict kvs \<in> set xs" and "map_of kvs (ascii ''index'') = Some v"
    and "int_field L v = None"
  shows "\<exists>d. reraise (parse_sections L raw name info) = Inl (HTTPException 500 d)"
proof (cases "map_of items (ascii ''error'')")
  case (Some d)
  from parse_sections_error_key[OF assms(1) Some] show ?thesis
    by (simp add: reraise_HTTPException)
next
  case None
  from section_of_rejected[OF assms(4,5)] obtain e where e: "section_of L (JDict kvs) = Inl e"
    by blast
  have "\<exists>e'. append_sections L [] xs = Inl e'"
  proof (cases "append_sections L [] xs")
    case (Inl a)
    then show ?thesis by blast
  next
    case (Inr secs)
    from append_sections_Inr_all[OF Inr assms(3)] e show ?thesis by simp
  qed
  then obtain e' where "append_sections L [] xs = Inl e'" by blast
  with assms(1,2) None show ?thesis
    by (simp add: parse_sections_def contains_dict dict_get_def iterate_def reraise_Other)
qed

lemma section_of_spec:
  assumes "\<And>i. int_field L (JInt i) = Some i" "\<And>s. str_field L (JStr s) = Some s"
    and "spec_section x = Some s"
  shows "section_of L x = Inr s"
  using assms
  by (auto simp: spec_section_def section_of_def subscript_def new_DocumentSection_def
      split: json.splits option.splits)

lemma append_sections_spec:
  assumes "\<And>i. int_field L (JInt i) = Some i" "\<And>s. str_field L (JStr s) = Some s"
  shows "spec_sections xs = Some secs \<Longrightarrow> append_sections L acc xs = Inr (acc @ secs)"
proof (induction xs arbitrary: acc secs)
  case Nil
  then show ?case by simp
next
  case (Cons x xs)
  then obtain s ss where s: "spec_section x = Some s" and ss: "spec_sections xs = Some ss"
    and secs: "secs = s # ss"
    by (auto split: option.splits)
  from section_of_spec[OF assms s] Cons.IH[OF ss] secs show ?case by simp
qed

lemma section_of_accepted: "accepted_as L x s \<Longrightarrow> section_of L x = Inr s"
  by (auto simp: accepted_as_def section_of_def subscript_def new_DocumentSection_def
      split: json.splits option.splits)

lemma append_sections_accepted:
  "list_all2 (accepted_as L) xs secs \<Longrightarrow> append_sections L acc xs = Inr (acc @ secs)"
proof (induction xs secs arbitrary: acc rule: list_all2_induct)
  case Nil
  then show ?case by simp
next
  case (Cons x xs s secs)
  from section_of_accepted[OF Cons.hyps(1)] Cons.IH[of "acc @ [s]"] show ?case by simp
qed

lemma parse_sections_accepted:
  assumes "json_loads L raw = Inr (JDict items)"
    and "map_of items (ascii ''error'') = None"
    and "map_of items (ascii ''sections'') = Some (JList xs)"
    and "list_all2 (accepted_as L) xs secs"
  shows "parse_sections L raw name info =
     Inr \<lparr> sections = secs, file_name = name, file_size = Some (info_size info),
           processing_status = ascii ''success'' \<rparr>"
  using assms(1-3) append_sections_accepted[OF assms(4), of "[]"]
  by (simp add: parse_sections_def contains_dict dict_get_def iterate_def)

text \<open>
  C1, as the code has it. An object with neither an \<open>error\<close> nor a \<open>sections\<close> key is
  not rejected: \<open>.get("sections", [])\<close> supplies the empty list and the call succeeds
  with no sections. An index is not required to be an integer either: what decides is
  the validation of the \<open>int\<close> field by pydantic. When it rejects the \<open>index\<close> of an
  element of the array, the handler fails with status 500 and no response is returned;
  when it accepts the values of every element, the call succeeds with the values as
  pydantic converted them, in the order of the array.
\<close>

theorem missing_sections_defaults_and_index_is_validated_by_pydantic:
  "(json_loads L raw = Inr (JDict items) \<and> map_of items (ascii ''error'') = None
      \<and> map_of items (ascii ''sections'') = None \<longrightarrow>
    parse_sections L raw name info =
      Inr \<lparr> sections = [], file_name = name, file_size = Some (info_size info),
            processing_status = ascii ''success'' \<rparr>)
 \<and> (json_loads L raw = Inr (JDict items) \<and> map_of items (ascii ''sections'') = Some (JList xs)
      \<and> JDict kvs \<in> set xs \<and> map_of kvs (ascii ''index'') = Some v \<and> int_field L v = None \<longrightarrow>
    (\<exists>d. reraise (parse_sections L raw name info) = Inl (HTTPException 500 d)))
 \<and> (json_loads L raw = Inr (JDict items) \<and> map_of items (ascii ''error'') = None
      \<and> map_of items (ascii ''sections'') = Some (JList xs)
      \<and> list_all2 (accepted_as L) xs secs \<longrightarrow>
    parse_sections L raw name info =
      Inr \<lparr> sections = secs, file_name = name, file_size = Some (info_size info),
            processing_status = ascii ''success'' \<rparr>)"
  using parse_sections_no_key parse_sections_rejected parse_sections_accepted by blast

text \<open>
  The three parts at concrete outputs, with a pydantic that converts: the object
  \<open>{"title": "A"}\<close>; a \<open>sections\<close> array whose only element has the string \<open>"one"\<close>
  as its \<open>index\<close>, which is rejected; and the same with the string \<open>"1"\<close>, which is
  accepted as the integer 1.
\<close>

theorem missing_sections_defaults_and_index_is_validated_by_pydantic_witness:
  "parse_sections
     ((stub_libs (Inr []) (Inr (JDict [(ascii ''title'', JStr (ascii ''A''))])))
        \<lparr> int_field := lax_int \<rparr>)
     [] None some_info =
     Inr \<lparr> sections = [], file_name = None, file_size = Some (info_size some_info),
           processing_status = ascii ''success'' \<rparr>
 \<and> (\<exists>d. reraise (parse_sections
        ((stub_libs (Inr [])
          (Inr (JDict [(ascii ''sections'', JList
             [JDict [(ascii ''index'', JStr (ascii ''one'')), (ascii ''title'', JStr []),
                     (ascii ''content'', JStr [])]])])))
           \<lparr> int_field := lax_int \<rparr>)
        [] None some_info) = Inl (HTTPException 500 d))
 \<and> parse_sections ((stub_libs (Inr []) (Inr string_index_json)) \<lparr> int_field := lax_int \<rparr>)
     [] None some_info =
     Inr \<lparr> sections = [\<lparr> index = 1, title = ascii ''A'', content = ascii ''x'' \<rparr>],
           file_name = None, file_size = Some (info_size some_info),
           processing_status = ascii ''success'' \<rparr>"
proof -
  let ?L1 = "(stub_libs (Inr []) (Inr (JDict [(ascii ''title'', JStr (ascii ''A''))])))
               \<lparr> int_field := lax_int \<rparr>"
  let ?kvs = "[(ascii ''index'', JStr (ascii ''one'')), (ascii ''title'', JStr []),
               (ascii ''content'', JStr [])]"
  let ?items = "[(ascii ''sections'', JList [JDict ?kvs])]"
  let ?L2 = "(stub_libs (Inr []) (Inr (JDict ?items))) \<lparr> int_field := lax_int \<rparr>"
  let ?x3 = "JDict [(ascii ''index'', JStr (ascii ''1'')), (ascii ''title'', JStr (ascii ''A'')),
               (ascii ''content'', JStr (ascii ''x''))]"
  let ?items3 = "[(ascii ''sections'', JList [?x3])]"
  let ?L3 = "(stub_libs (Inr []) (Inr string_index_json)) \<lparr> int_field := lax_int \<rparr>"
  let ?s3 = "\<lparr> index = 1, title = ascii ''A'', content = ascii ''x'' \<rparr>"
  have a: "json_loads ?L1 [] = Inr (JDict [(ascii ''title'', JStr (ascii ''A''))])
       \<and> map_of [(ascii ''title'', JStr (ascii ''A''))] (ascii ''error'') = None
       \<and> map_of [(ascii ''title'', JStr (ascii ''A''))] (ascii ''sections'') = None"
    by (simp add: stub_libs_def ascii_def)
  have b: "json_loads ?L2 [] = Inr (JDict ?items)
       \<and> map_of ?items (ascii ''sections'') = Some (JList [JDict ?kvs])
       \<and> JDict ?kvs \<in> set [JDict ?kvs]
       \<and> map_of ?kvs (ascii ''index'') = Some (JStr (ascii ''one''))
       \<and> int_field ?L2 (JStr (ascii ''one'')) = None"
    by (simp add: stub_libs_def lax_int_def ascii_def)
  have c: "json_loads ?L3 [] = Inr (JDict ?items3)
       \<and> map_of ?items3 (ascii ''error'') = None
       \<and> map_of ?items3 (ascii ''sections'') = Some (JList [?x3])
       \<and> list_all2 (accepted_as ?L3) [?x3] [?s3]"
    by (simp add: stub_libs_def string_index_json_def accepted_as_def lax_int_def strict_str_def
        ascii_def)
  from a missing_sections_defaults_and_index_is_validated_by_pydantic
         [where L = ?L1 and raw = "[]" and items = "[(ascii ''title'', JStr (ascii ''A''))]"
            and name = None and info = some_info]
  have 1: "parse_sections ?L1 [] None some_info =
     Inr \<lparr> sections = [], file_name = None, file_size = Some (info_size some_info),
           processing_status = ascii ''success'' \<rparr>"
    by blast
  from b missing_sections_defaults_and_index_is_validated_by_pydantic
         [where L = ?L2 and raw = "[]" and items = ?items and xs = "[JDict ?kvs]"
            and kvs = ?kvs and v = "JStr (ascii ''one'')" and name = None and info = some_info]
  have 2: "\<exists>d. reraise (parse_sections ?L2 [] None some_info) = Inl (HTTPException 500 d)"
    by blast
  from c missing_sections_defaults_and_index_is_validated_by_pydantic
         [where L = ?L3 and raw = "[]" and items = ?items3 and xs = "[?x3]"
            and secs = "[?s3]" and name = None and info = some_info]
  have 3: "parse_sections ?L3 [] None some_info =
     Inr \<lparr> sections = [?s3], file_name = None, file_size = Some (info_size some_info),
           processing_status = ascii ''success'' \<rparr>"
    by blast
  from 1 2 3 show ?thesis by blast
qed

text \<open>
  C1 as it is stated fails in both halves. For the output \<open>{}\<close>, an object without
  the key \<open>sections\<close>, the validator returns an empty list of sections with status
  \<open>success\<close>. For an output whose only section has the string \<open>"1"\<close> as its index,
  which is not an integer, a pydantic that converts such a string returns the section
  with the index 1, again with status \<open>success\<close>.
\<close>

theorem missing_key_and_string_index_are_accepted:
  "parse_sections (stub_libs (Inr (ascii ''{}'')) (Inr (JDict []))) (ascii ''{}'') None some_info =
     Inr \<lparr> sections = [], file_name = None, file_size = Some (ascii ''0.02 KB''),
           processing_status = ascii ''success'' \<rparr>
 \<and> parse_sections ((stub_libs (Inr []) (Inr string_index_json)) \<lparr> int_field := lax_int \<rparr>)
       [] None some_info =
     Inr \<lparr> sections = [\<lparr> index = 1, title = ascii ''A'', content = ascii ''x'' \<rparr>],
           file_name = None, file_size = Some (ascii ''0.02 KB''),
           processing_status = ascii ''success'' \<rparr>"
  by (simp add: parse_sections_def stub_libs_def contains_def dict_get_def iterate_def
      some_info_def string_index_json_def section_of_def subscript_def
      new_DocumentSection_def lax_int_def strict_str_def ascii_def)

text \<open>
  C2. When pydantic accepts an \<open>int\<close> for \<open>index\<close> and a \<open>str\<close> for \<open>title\<close> and
  \<open>content\<close>, an object without an \<open>error\<close> key whose \<open>sections\<close> array is well typed is
  turned into exactly the sections of the array: same number, same order, same indices,
  titles and contents.
\<close>

theorem sections_pass_through_unchanged:
  assumes "\<And>i. int_field L (JInt i) = Some i" "\<And>s. str_field L (JStr s) = Some s"
    and "json_loads L raw = Inr (JDict items)"
    and "map_of items (ascii ''error'') = None"
    and "map_of items (ascii ''sections'') = Some (JList xs)"
    and "spec_sections xs = Some secs"
  shows "parse_sections L raw name info =
     Inr \<lparr> sections = secs, file_name = name, file_size = Some (info_size info),
           processing_status = ascii ''success'' \<rparr>"
  using assms(3-5) append_sections_spec[OF assms(1,2) assms(6), of "[]"]
  by (simp add: parse_sections_def contains_dict dict_get_def iterate_def)

text \<open>
  The round trip of the specification: the exact output with the sections A, B and C
  gives three sections in that order, the second with the empty string as content.
\<close>

theorem sections_pass_through_unchanged_witness:
  "parse_sections (stub_libs (Inr abc_text) (Inr abc_json)) abc_text (Some (ascii ''a.md''))
       some_info =
     Inr \<lparr> sections =
             [\<lparr> index = 1, title = ascii ''A'', content = ascii ''x'' \<rparr>,
              \<lparr> index = 2, title = ascii ''B'', content = [] \<rparr>,
              \<lparr> index = 3, title = ascii ''C'', content = ascii ''y'' \<rparr>],
           file_name = Some (ascii ''a.md''), file_size = Some (info_size some_info),
           processing_status = ascii ''success'' \<rparr>"
proof -
  let ?L = "stub_libs (Inr abc_text) (Inr abc_json)"
  let ?xs = "[JDict [(ascii ''index'', JInt 1), (ascii ''title'', JStr (ascii ''A'')),
               (ascii ''content'', JStr (ascii ''x''))],
        JDict [(ascii ''index'', JInt 2), (ascii ''title'', JStr (ascii ''B'')),
               (ascii ''content'', JStr [])],
        JDict [(ascii ''index'', JInt 3), (ascii ''title'', JStr (ascii ''C'')),
               (ascii ''content'', JStr (ascii ''y''))]]"
  have 1: "\<And>i. int_field ?L (JInt i) = Some i" by (simp add: stub_libs_def strict_int_def)
  have 2: "\<And>s. str_field ?L (JStr s) = Some s" by (simp add: stub_libs_def strict_str_def)
  have 3: "json_loads ?L abc_text = Inr (JDict [(ascii ''sections'', JList ?xs)])"
    by (simp add: stub_libs_def abc_json_def)
  have 4: "map_of [(ascii ''sections'', JList ?xs)] (ascii ''error'') = None"
    by (simp add: ascii_def)
  have 5: "map_of [(ascii ''sections'', JList ?xs)] (ascii ''sections'') = Some (JList ?xs)"
    by simp
  have 6: "spec_sections ?xs =
     Some [\<lparr> index = 1, title = ascii ''A'', content = ascii ''x'' \<rparr>,
           \<lparr> index = 2, title = ascii ''B'', content = [] \<rparr>,
           \<lparr> index = 3, title = ascii ''C'', content = ascii ''y'' \<rparr>]"
    by (simp add: spec_section_def ascii_def)
  show ?thesis by (rule sections_pass_through_unchanged[OF 1 2 3 4 5 6])
qed

text \<open>
  C4, as the code has it. When the parsed object has the key \<open>error\<close>, the validator
  raises an \<open>HTTPException\<close> with status 500, whatever else the object holds: the
  sections are not looked at. Its detail is the value of that key, except that the
  value \<open>null\<close> is replaced by the phrase \<open>Internal Server Error\<close>.
\<close>

theorem error_key_is_reported:
  assumes "json_loads L raw = Inr (JDict items)"
    and "map_of items (ascii ''error'') = Some d"
  shows "parse_sections L raw name info =
     Inl (HTTPException 500 (if d = JNull then JStr (ascii ''Internal Server Error'') else d))"
  using parse_sections_error_key[OF assms] by (simp add: detail_of_500_def)

text \<open>An object that has both a \<open>sections\<close> and an \<open>error\<close> key.\<close>

theorem error_key_is_reported_witness:
  "parse_sections
     (stub_libs (Inr [])
        (Inr (JDict [(ascii ''sections'', JList []),
                     (ascii ''error'', JStr (ascii ''boom''))])))
     [] None some_info =
   Inl (HTTPException 500 (JStr (ascii ''boom'')))"
proof -
  let ?items = "[(ascii ''sections'', JList []), (ascii ''error'', JStr (ascii ''boom''))]"
  have 1: "json_loads (stub_libs (Inr []) (Inr (JDict ?items))) [] = Inr (JDict ?items)"
    by (simp add: stub_libs_def)
  have 2: "map_of ?items (ascii ''error'') = Some (JStr (ascii ''boom''))"
    by (simp add: ascii_def)
  from error_key_is_reported[OF 1 2] show ?thesis by simp
qed

text \<open>
  C4 as it is stated fails where it says that the reported error is propagated: for
  the output \<open>{"error": null}\<close> the detail of the exception is not the value of the
  key but the phrase of the status.
\<close>

theorem null_error_is_replaced_by_the_phrase:
  "parse_sections (stub_libs (Inr []) (Inr (JDict [(ascii ''error'', JNull)]))) [] None
     some_info =
     Inl (HTTPException 500 (JStr (ascii ''Internal Server Error'')))
 \<and> JStr (ascii ''Internal Server Error'') \<noteq> JNull"
  by (simp add: parse_sections_def stub_libs_def contains_def subscript_def
      detail_of_500_def)

section \<open>Properties of FileProcessor and OllamaFileChat\<close>

text \<open>
  C3, as the code has it. With no document loaded, \<open>ask_about_file\<close>,
  \<open>summarize_file\<close>, \<open>analyze_file_structure\<close> and \<open>extract_key_points\<close> return the
  fixed reply that asks for a file to be loaded, and \<open>extract_document_sections\<close>
  returns the fixed text \<open>{"sections": []}\<close> instead. None of them raises and none
  calls the backend: the world is unchanged.
\<close>

theorem no_document_replies:
  "current_file_content self = None \<Longrightarrow>
     ask_about_file L w self question = (please_load_a_file, w)
   \<and> summarize_file L w self = (please_load_a_file, w)
   \<and> analyze_file_structure L w self = (please_load_a_file, w)
   \<and> extract_key_points L w self = (please_load_a_file, w)
   \<and> OllamaFileChat_extract_document_sections L w self = (empty_sections_json, w)"
  by (simp add: ask_about_file_def summarize_file_def analyze_file_structure_def
      extract_key_points_def OllamaFileChat_extract_document_sections_def)

theorem no_document_replies_witness:
  "ask_about_file (stub_libs (Inr []) (Inr JNull)) empty_world no_document (ascii ''why?'')
     = (please_load_a_file, empty_world)
   \<and> summarize_file (stub_libs (Inr []) (Inr JNull)) empty_world no_document
     = (please_load_a_file, empty_world)
   \<and> analyze_file_structure (stub_libs (Inr []) (Inr JNull)) empty_world no_document
     = (please_load_a_file, empty_world)
   \<and> extract_key_points (stub_libs (Inr []) (Inr JNull)) empty_world no_document
     = (please_load_a_file, empty_world)
   \<and> OllamaFileChat_extract_document_sections (stub_libs (Inr []) (Inr JNull)) empty_world
       no_document
     = (empty_sections_json, empty_world)"
proof -
  have "current_file_content no_document = None" by (simp add: no_document_def)
  then show ?thesis by (rule no_document_replies)
qed

text \<open>
  C3 as it is stated fails for \<open>extract_document_sections\<close>: with no document loaded
  its reply is \<open>{"sections": []}\<close>, which is not the reply that asks for a file.
\<close>

theorem extract_sections_without_document_is_not_the_sentinel:
  "fst (OllamaFileChat_extract_document_sections (stub_libs (Inr []) (Inr JNull)) empty_world
          no_document) = empty_sections_json
   \<and> empty_sections_json \<noteq> please_load_a_file"
  by (simp add: OllamaFileChat_extract_document_sections_def no_document_def
      empty_sections_json_def please_load_a_file_def)

text \<open>
  C5, as the code has it. With a document of non-empty text loaded,
  \<open>extract_document_sections\<close> sends exactly one request, the system prompt followed by
  the whole text, and never a second one. A failure of the backend is caught and
  returned as the text \<open>{"error": "...: <message>"}\<close>; it is not raised.
\<close>

theorem one_request_and_failure_returned_as_text:
  "current_file_content self = Some text \<Longrightarrow> text \<noteq> [] \<Longrightarrow>
   OllamaFileChat_extract_document_sections L w self =
     ((case llm_invoke L (llm_requests w) [SystemMessage sections_prompt, HumanMessage text] of
         Inr response \<Rightarrow> response
       | Inl e \<Rightarrow> error_json_head @ str e @ error_json_tail),
      w \<lparr> llm_requests :=
            llm_requests w @ [[SystemMessage sections_prompt, HumanMessage text]] \<rparr>)"
  by (simp add: OllamaFileChat_extract_document_sections_def invoke_def split: sum.splits)

theorem one_request_and_failure_returned_as_text_witness:
  "OllamaFileChat_extract_document_sections (stub_libs (Inr abc_text) (Inr abc_json))
       empty_world loaded_document =
     (abc_text,
      empty_world \<lparr> llm_requests :=
        [[SystemMessage sections_prompt, HumanMessage (ascii ''# A'')]] \<rparr>)"
proof -
  have 1: "current_file_content loaded_document = Some (ascii ''# A'')"
    by (simp add: loaded_document_def)
  have 2: "ascii ''# A'' \<noteq> []" by (simp add: ascii_def)
  from one_request_and_failure_returned_as_text
         [OF 1 2, of "stub_libs (Inr abc_text) (Inr abc_json)" empty_world]
  show ?thesis by (simp add: stub_libs_def empty_world_def)
qed

text \<open>
  C5 as it is stated fails: when the backend raises, the method returns normally, with
  a text that has the shape of a result.
\<close>

theorem backend_failure_is_returned_not_raised:
  "fst (OllamaFileChat_extract_document_sections
          (stub_libs (Inl (Exn OSError (ascii ''connection refused''))) (Inr JNull))
          empty_world loaded_document)
   = error_json_head @ ascii ''connection refused'' @ error_json_tail"
  by (simp add: OllamaFileChat_extract_document_sections_def invoke_def stub_libs_def
      loaded_document_def ascii_def)

text \<open>
  C6. \<open>load_file\<close> of a path that does not exist raises the exception "file does not
  exist", and \<open>load_file\<close> of an existing path whose lower-cased extension is none of
  \<open>.txt\<close>, \<open>.md\<close>, \<open>.pdf\<close>, \<open>.docx\<close>, \<open>.doc\<close> raises "unsupported file type". Neither
  result depends on the libraries, so no loader has been called.
\<close>

theorem load_file_checks_before_dispatch:
  "(\<not> os_path_exists w p \<longrightarrow>
      FileProcessor_load_file L w p = Inl (Exn Exception (file_does_not_exist @ p)))
 \<and> (os_path_exists w p
      \<and> lower L (Path_suffix p)
          \<notin> {ascii ''.txt'', ascii ''.md'', ascii ''.pdf'', ascii ''.docx'', ascii ''.doc''} \<longrightarrow>
      FileProcessor_load_file L w p =
        Inl (Exn Exception (unsupported_file_type @ lower L (Path_suffix p))))"
  by (simp add: FileProcessor_load_file_def supported_extensions_def)

theorem load_file_checks_before_dispatch_witness:
  "FileProcessor_load_file (stub_libs (Inr []) (Inr JNull)) empty_world (ascii ''missing.txt'')
     = Inl (Exn Exception (file_does_not_exist @ ascii ''missing.txt''))
 \<and> FileProcessor_load_file (stub_libs (Inr []) (Inr JNull)) csv_world (ascii ''data.CSV'')
     = Inl (Exn Exception (unsupported_file_type @ ascii ''.csv''))"
proof -
  have 1: "\<not> os_path_exists empty_world (ascii ''missing.txt'')"
    by (simp add: os_path_exists_def empty_world_def)
  have 2: "os_path_exists csv_world (ascii ''data.CSV'')"
    by (simp add: os_path_exists_def csv_world_def)
  have 3: "lower (stub_libs (Inr []) (Inr JNull)) (Path_suffix (ascii ''data.CSV''))
             = ascii ''.csv''"
    by (simp add: ascii_def lower_def lower_cp_def Path_suffix_def Path_name_def
        name_suffix_def slash_def dot_def)
  have 4: "ascii ''.csv''
      \<notin> {ascii ''.txt'', ascii ''.md'', ascii ''.pdf'', ascii ''.docx'', ascii ''.doc''}"
    by (simp add: ascii_def)
  from 1 load_file_checks_before_dispatch[of empty_world "ascii ''missing.txt''"
         "stub_libs (Inr []) (Inr JNull)"]
  have a: "FileProcessor_load_file (stub_libs (Inr []) (Inr JNull)) empty_world (ascii ''missing.txt'')
     = Inl (Exn Exception (file_does_not_exist @ ascii ''missing.txt''))"
    by blast
  from 2 3 4 load_file_checks_before_dispatch[of csv_world "ascii ''data.CSV''"
         "stub_libs (Inr []) (Inr JNull)"]
  have b: "FileProcessor_load_file (stub_libs (Inr []) (Inr JNull)) csv_world (ascii ''data.CSV'')
     = Inl (Exn Exception (unsupported_file_type @ ascii ''.csv''))"
    by simp
  from a b show ?thesis by blast
qed

text \<open>
  C9. When \<open>FileProcessor.load_file\<close> raises, \<open>OllamaFileChat.load_file\<close> returns
  \<open>False\<close> and the object is as it was: the text and the path of a document loaded
  before are still there.
\<close>

theorem failed_load_keeps_document:
  "FileProcessor_load_file L w p = Inl e \<Longrightarrow>
   OllamaFileChat_load_file L w self p = (False, self)"
  by (simp add: OllamaFileChat_load_file_def)

theorem failed_load_keeps_document_witness:
  "OllamaFileChat_load_file (stub_libs (Inr []) (Inr JNull)) empty_world loaded_document
     (ascii ''missing.txt'') = (False, loaded_document)"
proof -
  have "FileProcessor_load_file (stub_libs (Inr []) (Inr JNull)) empty_world
          (ascii ''missing.txt'')
        = Inl (Exn Exception (file_does_not_exist @ ascii ''missing.txt''))"
    by (simp add: FileProcessor_load_file_def os_path_exists_def empty_world_def)
  then show ?thesis by (rule failed_load_keeps_document)
qed

section \<open>Properties of the handler\<close>

lemma extract_sections_files:
  "OllamaFileChat_extract_document_sections L w c = (t, w') \<Longrightarrow> files w' = files w"
  by (auto simp: OllamaFileChat_extract_document_sections_def invoke_def Let_def
      split: option.splits if_splits sum.splits)

lemma temp_name_nonempty: "temp_name L w ext \<noteq> []"
  by (simp add: temp_name_def ascii_def)

lemma process_upload_files:
  assumes "\<And>data. read upload = Inr data \<Longrightarrow> tmp_write_error L data = None"
    and "process_upload L w chat upload ext = (r, tp, w', chat')"
  shows "(tp = None \<and> files w' = files w)
       \<or> (files w (temp_name L w ext) = None \<and> tp = Some (temp_name L w ext)
           \<and> (\<exists>d. files w' = (files w)(temp_name L w ext \<mapsto> d)))"
proof (cases "read upload")
  case (Inl e)
  with assms(2) show ?thesis by (simp add: process_upload_def)
next
  case (Inr data)
  note wr = assms(1)[OF Inr]
  show ?thesis
  proof (cases "tmp_create_error L (files w)")
    case (Some e)
    with Inr assms(2) show ?thesis by (simp add: process_upload_def)
  next
    case None
    show ?thesis
    proof (cases "os_path_exists w (temp_name L w ext)")
      case True
      with Inr None assms(2) show ?thesis by (simp add: process_upload_def Let_def)
    next
      case False
      then have fresh: "files w (temp_name L w ext) = None" by (simp add: os_path_exists_def)
      show ?thesis
      proof (cases "tmp_close_error L data")
        case (Some e)
        with Inr None False fresh wr assms(2) show ?thesis
          by (auto simp: process_upload_def Let_def write_file_def)
      next
        case cl: None
        obtain ok c1 where lf: "OllamaFileChat_load_file L (write_file w (temp_name L w ext) data) chat (temp_name L w ext) = (ok, c1)"
          by (cases "OllamaFileChat_load_file L (write_file w (temp_name L w ext) data) chat (temp_name L w ext)") 
        obtain t w3 where ex: "OllamaFileChat_extract_document_sections L (write_file w (temp_name L w ext) data) c1 = (t, w3)"
          by (cases "OllamaFileChat_extract_document_sections L (write_file w (temp_name L w ext) data) c1")
        from extract_sections_files[OF ex] have "files w3 = (files w)(temp_name L w ext \<mapsto> data)"
          by (simp add: write_file_def)
        with Inr None False fresh wr cl lf ex assms(2) show ?thesis
          by (auto simp: process_upload_def Let_def write_file_def split: sum.splits bool.splits)
      qed
    qed
  qed
qed

lemma cleanup_removes:
  assumes "\<not> unlink_fails L (files w) p" "p \<noteq> []"
  shows "files (cleanup L w (Some p)) = (files w)(p := None)"
  using assms by (auto simp: cleanup_def os_path_exists_def remove_file_def)

lemma process_upload_written:
  assumes "read upload = Inr data" "tmp_create_error L (files w) = None"
    and "files w (temp_name L w ext) = None"
    and "tmp_write_error L data = None" "tmp_close_error L data = None"
    and "process_upload L w chat upload ext = (r, tp, w', chat')"
  shows "tp = Some (temp_name L w ext) \<and> files w' = (files w)(temp_name L w ext \<mapsto> data)"
proof -
  let ?t = "temp_name L w ext"
  obtain ok c1 where lf: "OllamaFileChat_load_file L (write_file w ?t data) chat ?t = (ok, c1)"
    by (cases "OllamaFileChat_load_file L (write_file w ?t data) chat ?t")
  obtain t w3 where ex: "OllamaFileChat_extract_document_sections L (write_file w ?t data) c1 = (t, w3)"
    by (cases "OllamaFileChat_extract_document_sections L (write_file w ?t data) c1")
  from extract_sections_files[OF ex] have "files w3 = (files w)(?t \<mapsto> data)"
    by (simp add: write_file_def)
  with assms lf ex show ?thesis
    by (auto simp: process_upload_def Let_def write_file_def os_path_exists_def
        split: sum.splits bool.splits)
qed

lemma process_upload_write_fails:
  assumes "read upload = Inr data" "tmp_create_error L (files w) = None"
    and "files w (temp_name L w ext) = None"
    and "tmp_write_error L data = Some e"
  shows "process_upload L w chat upload ext =
     (Inl (Other e), None, write_file w (temp_name L w ext) [], chat)"
  using assms by (simp add: process_upload_def Let_def os_path_exists_def)

lemma handler_result:
  assumes "initialize_file_chat L file_chat = Inr chat"
    and "lower L (Path_suffix (case filename upload of None \<Rightarrow> [] | Some n \<Rightarrow> n)) = ext"
    and "ext \<in> set get_supported_formats"
    and "process_upload L w chat upload ext = (r, tp, w', chat')"
  shows "api_extract_document_sections L w file_chat upload = (reraise r, cleanup L w' tp, Some chat')"
  using assms by (simp add: api_extract_document_sections_def Let_def)

lemma file_left_when_unlink_fails:
  assumes "initialize_file_chat L file_chat = Inr chat"
    and "lower L (Path_suffix (case filename upload of None \<Rightarrow> [] | Some n \<Rightarrow> n)) = ext"
    and "ext \<in> set get_supported_formats"
    and "read upload = Inr data" "tmp_create_error L (files w) = None"
    and "files w (temp_name L w ext) = None"
    and "tmp_write_error L data = None" "tmp_close_error L data = None"
    and "\<And>fs p. unlink_fails L fs p"
  shows "files (fst (snd (api_extract_document_sections L w file_chat upload))) (temp_name L w ext)
     = Some data"
proof -
  obtain r tp w' chat' where pu: "process_upload L w chat upload ext = (r, tp, w', chat')"
    by (cases "process_upload L w chat upload ext") auto
  from process_upload_written[OF assms(4-8) pu]
  have tp: "tp = Some (temp_name L w ext)" and f: "files w' = (files w)(temp_name L w ext \<mapsto> data)"
    by auto
  have "files (cleanup L w' tp) = files w'"
    using tp assms(9) by (simp add: cleanup_def)
  with handler_result[OF assms(1-3) pu] f show ?thesis by simp
qed

lemma file_left_when_write_fails:
  assumes "initialize_file_chat L file_chat = Inr chat"
    and "lower L (Path_suffix (case filename upload of None \<Rightarrow> [] | Some n \<Rightarrow> n)) = ext"
    and "ext \<in> set get_supported_formats"
    and "read upload = Inr data" "tmp_create_error L (files w) = None"
    and "files w (temp_name L w ext) = None"
    and "tmp_write_error L data = Some e"
  shows "files (fst (snd (api_extract_document_sections L w file_chat upload))) (temp_name L w ext)
     = Some []"
  using handler_result[OF assms(1-3) process_upload_write_fails[OF assms(4-7)]]
  by (simp add: cleanup_def write_file_def)

lemma notes_extension:
  "lower (stub_libs a b \<lparr> unlink_fails := u, tmp_write_error := t \<rparr>)
     (Path_suffix (case filename upload_notes of None \<Rightarrow> [] | Some n \<Rightarrow> n)) = ascii ''.txt''"
  by (simp add: upload_notes_def ascii_def lower_def lower_cp_def Path_suffix_def Path_name_def
        name_suffix_def slash_def dot_def)

lemma txt_supported: "ascii ''.txt'' \<in> set get_supported_formats"
  by (simp add: get_supported_formats_def supported_extensions_def)

lemma notes_temp_name:
  "temp_name (stub_libs a b \<lparr> unlink_fails := u, tmp_write_error := t \<rparr>) empty_world (ascii ''.txt'') = notes_temp"
  by (simp add: temp_name_def stub_libs_def notes_temp_def ascii_def)

lemma stub_init:
  "initialize_file_chat (stub_libs a b \<lparr> unlink_fails := u, tmp_write_error := t \<rparr>) None = Inr no_document"
  by (simp add: initialize_file_chat_def OllamaFileChat_init_def stub_libs_def no_document_def)


text \<open>
  C8, as the code has it. When writing the upload to the temporary file raises nothing
  and \<open>os.unlink\<close> raises nothing, the handler leaves no temporary file behind,
  whatever it returns or raises: the files are those there were before the request.
\<close>

theorem temp_file_removed_unless_write_or_unlink_fails:
  assumes unl: "\<And>fs p. \<not> unlink_fails L fs p"
    and wr: "\<And>data. read upload = Inr data \<Longrightarrow> tmp_write_error L data = None"
  shows "files (fst (snd (api_extract_document_sections L w file_chat upload))) = files w"
proof (cases "initialize_file_chat L file_chat")
  case (Inl r)
  then show ?thesis by (simp add: api_extract_document_sections_def)
next
  case (Inr chat)
  let ?ext = "lower L (Path_suffix (case filename upload of None \<Rightarrow> [] | Some n \<Rightarrow> n))"
  let ?t = "temp_name L w ?ext"
  show ?thesis
  proof (cases "?ext \<in> set get_supported_formats")
    case False
    with Inr show ?thesis by (simp add: api_extract_document_sections_def Let_def)
  next
    case True
    obtain r tp w' chat' where pu: "process_upload L w chat upload ?ext = (r, tp, w', chat')"
      by (cases "process_upload L w chat upload ?ext") auto
    have res: "files (fst (snd (api_extract_document_sections L w file_chat upload))) = files (cleanup L w' tp)"
      using Inr True pu by (simp add: api_extract_document_sections_def Let_def)
    from process_upload_files[OF wr pu]
    have "files (cleanup L w' tp) = files w"
    proof
      assume "tp = None \<and> files w' = files w"
      then show ?thesis by (simp add: cleanup_def)
    next
      assume a: "files w ?t = None \<and> tp = Some ?t \<and> (\<exists>d. files w' = (files w)(?t \<mapsto> d))"
      then obtain d where d: "files w' = (files w)(?t \<mapsto> d)" by blast
      from cleanup_removes[OF unl temp_name_nonempty, of w'] a d
      show ?thesis by (simp add: fun_upd_idem)
    qed
    with res show ?thesis by simp
  qed
qed

theorem temp_file_removed_unless_write_or_unlink_fails_witness:
  "files (fst (snd (api_extract_document_sections (stub_libs (Inr abc_text) (Inr abc_json))
      empty_world None upload_notes))) = files empty_world"
proof -
  have 1: "\<And>fs p. \<not> unlink_fails (stub_libs (Inr abc_text) (Inr abc_json)) fs p"
    by (simp add: stub_libs_def)
  have 2: "\<And>data. read upload_notes = Inr data \<Longrightarrow>
      tmp_write_error (stub_libs (Inr abc_text) (Inr abc_json)) data = None"
    by (simp add: stub_libs_def)
  show ?thesis by (rule temp_file_removed_unless_write_or_unlink_fails[OF 1 2])
qed

text \<open>
  C8 as it is stated fails. When \<open>os.unlink\<close> raises its \<open>OSError\<close>, the
  \<open>finally\<close> clause passes over it and the temporary file is still there when the
  handler returns. When \<open>temp_file.write\<close> raises, \<open>temp_file_path\<close> has not been
  assigned yet, the \<open>finally\<close> clause has nothing to remove and the file that was
  created stays.
\<close>

theorem temp_file_left_when_unlink_or_write_fails:
  "files (fst (snd (api_extract_document_sections
       ((stub_libs (Inr abc_text) (Inr abc_json))
          \<lparr> unlink_fails := (\<lambda>fs p. True), tmp_write_error := (\<lambda>data. None) \<rparr>)
       empty_world None upload_notes))) notes_temp = Some (ascii ''# A'')
 \<and> files (fst (snd (api_extract_document_sections
       ((stub_libs (Inr abc_text) (Inr abc_json))
          \<lparr> unlink_fails := (\<lambda>fs p. False),
            tmp_write_error := (\<lambda>data. Some (Exn OSError (ascii ''No space left on device''))) \<rparr>)
       empty_world None upload_notes))) notes_temp = Some []"
proof -
  let ?L1 = "(stub_libs (Inr abc_text) (Inr abc_json))
          \<lparr> unlink_fails := (\<lambda>fs p. True), tmp_write_error := (\<lambda>data. None) \<rparr>"
  let ?e = "Exn OSError (ascii ''No space left on device'')"
  let ?L2 = "(stub_libs (Inr abc_text) (Inr abc_json))
          \<lparr> unlink_fails := (\<lambda>fs p. False), tmp_write_error := (\<lambda>data. Some ?e) \<rparr>"
  have rd: "read upload_notes = Inr (ascii ''# A'')" by (simp add: upload_notes_def)
  have fresh1: "files empty_world (temp_name ?L1 empty_world (ascii ''.txt'')) = None"
    and fresh2: "files empty_world (temp_name ?L2 empty_world (ascii ''.txt'')) = None"
    by (simp_all add: empty_world_def)
  have 1: "files (fst (snd (api_extract_document_sections ?L1 empty_world None upload_notes)))
            (temp_name ?L1 empty_world (ascii ''.txt'')) = Some (ascii ''# A'')"
    by (rule file_left_when_unlink_fails[OF stub_init notes_extension txt_supported rd _ fresh1])
       (simp_all add: stub_libs_def)
  have 2: "files (fst (snd (api_extract_document_sections ?L2 empty_world None upload_notes)))
            (temp_name ?L2 empty_world (ascii ''.txt'')) = Some []"
    by (rule file_left_when_write_fails[OF stub_init notes_extension txt_supported rd _ fresh2, where e = ?e])
       (simp_all add: stub_libs_def)
  from 1 2 show ?thesis by (simp only: notes_temp_name)
qed


lemma case_variant_lower_aux:
  "list_all2 (\<lambda>x y. x = y \<or> (97 \<le> y \<and> y \<le> 122 \<and> x + 32 = y)) a e \<Longrightarrow>
   list_all (\<lambda>y. y < 128 \<and> \<not> (65 \<le> y \<and> y \<le> 90)) e \<Longrightarrow>
   list_all (\<lambda>c. c < 128) a \<and> map lower_cp a = e"
  by (induction a e rule: list_all2_induct) (auto simp: lower_cp_def)

lemma case_variant_lower:
  assumes "case_variant a e" "list_all (\<lambda>y. y < 128 \<and> \<not> (65 \<le> y \<and> y \<le> 90)) e"
  shows "lower L a = e"
  using case_variant_lower_aux[OF assms(1)[unfolded case_variant_def] assms(2)]
  by (simp add: lower_def)

lemma supported_lower_case:
  "e \<in> {ascii ''.txt'', ascii ''.md'', ascii ''.pdf'', ascii ''.docx'', ascii ''.doc''} \<Longrightarrow>
   list_all (\<lambda>y. y < 128 \<and> \<not> (65 \<le> y \<and> y \<le> 90)) e"
  by (auto simp: ascii_def)

lemma supported_formats_set:
  "set get_supported_formats =
     {ascii ''.txt'', ascii ''.md'', ascii ''.pdf'', ascii ''.docx'', ascii ''.doc''}"
  by (simp add: get_supported_formats_def supported_extensions_def)

lemma parse_sections_status:
  "parse_sections L raw name info = Inl (HTTPException c d) \<Longrightarrow> c = 500"
  by (auto simp: parse_sections_def split: sum.splits if_splits bool.splits)

lemma process_upload_status:
  assumes "process_upload L w chat upload ext = (Inl (HTTPException c d), rest)"
  shows "c = 422 \<or> c = 500"
  using assms
  by (auto simp: process_upload_def Let_def
      split: sum.splits option.splits prod.splits bool.splits if_splits
      dest: parse_sections_status)

lemma reraise_status:
  "reraise r = Inl (HTTPException c d) \<Longrightarrow> c = 500 \<or> r = Inl (HTTPException c d)"
  by (auto simp: reraise_def split: sum.splits raised.splits)

lemma handler_not_400:
  assumes "lower L (Path_suffix (case filename upload of None \<Rightarrow> [] | Some n \<Rightarrow> n))
             \<in> set get_supported_formats"
  shows "fst (api_extract_document_sections L w fc upload) \<noteq> Inl (HTTPException 400 d)"
proof (cases "initialize_file_chat L fc")
  case (Inl r)
  then have "r \<noteq> HTTPException 400 d"
    by (auto simp: initialize_file_chat_def split: option.splits sum.splits)
  with Inl show ?thesis by (simp add: api_extract_document_sections_def)
next
  case (Inr chat)
  let ?ext = "lower L (Path_suffix (case filename upload of None \<Rightarrow> [] | Some n \<Rightarrow> n))"
  obtain r rest where pu: "process_upload L w chat upload ?ext = (r, rest)"
    by (cases "process_upload L w chat upload ?ext") auto
  have "reraise r \<noteq> Inl (HTTPException 400 d)"
  proof
    assume a: "reraise r = Inl (HTTPException 400 d)"
    from reraise_status[OF a] have "r = Inl (HTTPException 400 d)" by simp
    with pu process_upload_status[where c = 400] show False by fastforce
  qed
  with Inr assms pu show ?thesis
    by (auto simp: api_extract_document_sections_def Let_def split: prod.splits)
qed

lemma load_file_dispatch:
  assumes "os_path_exists w p" "map_of supported_extensions (lower L (Path_suffix p)) = Some ld"
  shows "FileProcessor_load_file L w p =
     (case call_loader ld L w p of
        Inr text \<Rightarrow> Inr text
      | Inl x \<Rightarrow> Inl (Exn Exception (error_loading_file @ str x)))"
  using assms by (simp add: FileProcessor_load_file_def)

lemma notes_variant: "case_variant (Path_suffix (ascii ''Notes.TXT'')) (ascii ''.txt'')"
  by (simp add: case_variant_def ascii_def Path_suffix_def Path_name_def
        name_suffix_def slash_def dot_def)

text \<open>
  C10. For a path whose extension differs from one of \<open>.txt\<close>, \<open>.md\<close>, \<open>.pdf\<close>,
  \<open>.docx\<close>, \<open>.doc\<close> by letter case only, \<open>is_supported_file\<close> is true, \<open>load_file\<close>
  of an existing such path calls the loader that the table has for the lower-case
  extension, and the handler of an upload with that name does not raise the
  \<open>HTTPException\<close> with status 400 by which it rejects an unsupported format.
\<close>

theorem extension_matching_ignores_case:
  assumes "e \<in> {ascii ''.txt'', ascii ''.md'', ascii ''.pdf'', ascii ''.docx'', ascii ''.doc''}"
    and "case_variant (Path_suffix p) e"
  shows "is_supported_file L p
    \<and> (\<exists>ld. map_of supported_extensions e = Some ld
          \<and> (os_path_exists w p \<longrightarrow>
               FileProcessor_load_file L w p =
                 (case call_loader ld L w p of
                    Inr text \<Rightarrow> Inr text
                  | Inl x \<Rightarrow> Inl (Exn Exception (error_loading_file @ str x)))))
    \<and> (filename upload = Some p \<longrightarrow>
         (\<forall>d. fst (api_extract_document_sections L w fc upload) \<noteq> Inl (HTTPException 400 d)))"
proof -
  from case_variant_lower[OF assms(2) supported_lower_case[OF assms(1)]]
  have le: "lower L (Path_suffix p) = e" .
  from assms(1) supported_formats_set have mem: "e \<in> set get_supported_formats" by simp
  have 1: "is_supported_file L p"
    using le mem by (simp add: is_supported_file_def get_supported_formats_def)
  from mem obtain ld where ld: "map_of supported_extensions e = Some ld"
    by (cases "map_of supported_extensions e")
       (auto simp: map_of_eq_None_iff get_supported_formats_def)
  have 2: "os_path_exists w p \<longrightarrow>
               FileProcessor_load_file L w p =
                 (case call_loader ld L w p of
                    Inr text \<Rightarrow> Inr text
                  | Inl x \<Rightarrow> Inl (Exn Exception (error_loading_file @ str x)))"
    using load_file_dispatch[of w p L ld] ld le by simp
  have 3: "filename upload = Some p \<longrightarrow>
         (\<forall>d. fst (api_extract_document_sections L w fc upload) \<noteq> Inl (HTTPException 400 d))"
    using handler_not_400[where upload = upload and L = L] le mem by simp
  from 1 ld 2 3 show ?thesis by blast
qed


theorem extension_matching_ignores_case_witness:
  "is_supported_file (stub_libs (Inr abc_text) (Inr abc_json)) (ascii ''Notes.TXT'')
 \<and> FileProcessor_load_file (stub_libs (Inr abc_text) (Inr abc_json)) notes_world
       (ascii ''Notes.TXT'') = Inr (ascii ''# A'')
 \<and> (\<forall>d. fst (api_extract_document_sections (stub_libs (Inr abc_text) (Inr abc_json))
              empty_world None upload_notes) \<noteq> Inl (HTTPException 400 d))"
proof -
  let ?L = "stub_libs (Inr abc_text) (Inr abc_json)"
  have 1: "ascii ''.txt''
      \<in> {ascii ''.txt'', ascii ''.md'', ascii ''.pdf'', ascii ''.docx'', ascii ''.doc''}"
    by simp
  have ex: "os_path_exists notes_world (ascii ''Notes.TXT'')"
    by (simp add: os_path_exists_def notes_world_def)
  have nm: "filename upload_notes = Some (ascii ''Notes.TXT'')"
    by (simp add: upload_notes_def)
  have tab: "map_of supported_extensions (ascii ''.txt'') = Some load_text_file"
    by (simp add: supported_extensions_def)
  have ld: "call_loader load_text_file ?L notes_world (ascii ''Notes.TXT'') = Inr (ascii ''# A'')"
    by (simp add: FileProcessor_load_text_file_def stub_libs_def notes_world_def)
  from extension_matching_ignores_case
         [OF 1 notes_variant, where L = ?L and w = notes_world and upload = upload_notes
            and fc = None]
       ex tab ld
  have a: "is_supported_file ?L (ascii ''Notes.TXT'')
     \<and> FileProcessor_load_file ?L notes_world (ascii ''Notes.TXT'') = Inr (ascii ''# A'')"
    by auto
  from extension_matching_ignores_case
         [OF 1 notes_variant, where L = ?L and w = empty_world and upload = upload_notes
            and fc = None]
       nm
  have b: "\<forall>d. fst (api_extract_document_sections ?L empty_world None upload_notes)
             \<noteq> Inl (HTTPException 400 d)"
    by blast
  from a b show ?thesis by blast
qed

end
